theory Spec2Isabelle
  imports Main "HOL-Library.Sublist" "HOL-Library.Word"
begin

unbundle bit_operations_syntax

text \<open>
  A shallow embedding of the ThreatGuard agent: the rule-based security filter and its
  enricher, the rules-file loader, the batching output plugin, the discovery cycle with
  its adaptive configuration, and the configuration loader. Each C function is a HOL
  function of the same name. What a function writes through a pointer is returned
  with its return value; the clock (\<open>time(NULL)\<close>), the environment, the probes and the
  network are arguments. Pointers are never NULL in the model and allocation succeeds,
  so the NULL guards at the head of the C functions are not branches here. \<open>int\<close> values
  are integers; the fixed-width counters are words.
\<close>

section \<open>C strings and the libc functions the agent calls\<close>

text \<open>
  A C string is read up to its first NUL byte. Buffers are modelled as \<open>string\<close>
  (byte lists); \<open>c_str\<close> is what \<open>strlen\<close>, \<open>strcmp\<close> and \<open>strstr\<close> see of a buffer.
  A string literal in memory is its characters followed by the terminating NUL.
\<close>

definition NUL :: char where
  "NUL = CHR 0x00"

definition c_str :: "string \<Rightarrow> string" where
  "c_str s = takeWhile (\<lambda>c. c \<noteq> NUL) s"

definition c_literal :: "string \<Rightarrow> string" where
  "c_literal s = s @ [NUL]"

text \<open>\<open>strncpy(dst, src, n)\<close> into a zero-filled destination whose byte \<open>n\<close> stays NUL.\<close>

definition strncpy :: "string \<Rightarrow> nat \<Rightarrow> string" where
  "strncpy src n = take n (c_str src)"

text \<open>\<open>c_strstr hay needle\<close>: the needle occurs in the haystack (both without NUL).\<close>

fun c_strstr :: "string \<Rightarrow> string \<Rightarrow> bool" where
  "c_strstr [] needle = (needle = [])"
| "c_strstr (c # cs) needle = (prefix needle (c # cs) \<or> c_strstr cs needle)"

text \<open>
  \<open>strstr(s, needle) != NULL\<close>, and BSD \<open>strnstr(s, needle, slen) != NULL\<close>: the search
  looks at no more than \<open>slen\<close> bytes of \<open>s\<close> and stops at a NUL byte in \<open>s\<close>.
\<close>

definition strstr :: "string \<Rightarrow> string \<Rightarrow> bool" where
  "strstr s needle = c_strstr (c_str s) (c_str needle)"

definition strnstr :: "string \<Rightarrow> string \<Rightarrow> nat \<Rightarrow> bool" where
  "strnstr s needle slen = c_strstr (c_str (take slen s)) (c_str needle)"

text \<open>
  \<open>strncmp(s1, s2, n) == 0\<close>: the first \<open>n\<close> bytes agree, or both strings end at the
  same place before that. The callers pass a buffer of at least \<open>n\<close> bytes and a
  NUL-terminated literal, so neither list runs out before the comparison is decided;
  the last equation only makes the function total.
\<close>

fun strncmp_eq :: "string \<Rightarrow> string \<Rightarrow> nat \<Rightarrow> bool" where
  "strncmp_eq s1 s2 0 = True"
| "strncmp_eq (a # s1) (b # s2) (Suc n) = (a = b \<and> (a = NUL \<or> strncmp_eq s1 s2 n))"
| "strncmp_eq s1 s2 (Suc n) = False"

section \<open>msgpack objects and the packer\<close>

text \<open>
  \<open>msgpack_object\<close> of msgpack-c, one constructor per \<open>MSGPACK_OBJECT_*\<close> type tag.
  A map keeps its entries in order and may repeat a key.
\<close>

datatype msgpack_object =
    MSGPACK_OBJECT_NIL
  | MSGPACK_OBJECT_BOOLEAN bool
  | MSGPACK_OBJECT_POSITIVE_INTEGER nat
  | MSGPACK_OBJECT_NEGATIVE_INTEGER int
  | MSGPACK_OBJECT_FLOAT "64 word"
  | MSGPACK_OBJECT_STR string
  | MSGPACK_OBJECT_ARRAY "msgpack_object list"
  | MSGPACK_OBJECT_MAP "(msgpack_object \<times> msgpack_object) list"
  | MSGPACK_OBJECT_BIN string
  | MSGPACK_OBJECT_EXT int string

type_synonym msgpack_object_map = "(msgpack_object \<times> msgpack_object) list"

text \<open>
  What a packer appends to its buffer: a map or array header carrying the declared
  number of entries, or one complete object. The objects that follow a header are
  its elements; the header alone fixes how many the reader will take.
\<close>

datatype mp_item =
    Map_header nat
  | Array_header nat
  | Packed msgpack_object

type_synonym msgpack_sbuffer = "mp_item list"

definition msgpack_pack_map :: "nat \<Rightarrow> msgpack_sbuffer" where
  "msgpack_pack_map n = [Map_header (n mod 2 ^ 32)]"

definition msgpack_pack_array :: "nat \<Rightarrow> msgpack_sbuffer" where
  "msgpack_pack_array n = [Array_header (n mod 2 ^ 32)]"

definition msgpack_pack_object :: "msgpack_object \<Rightarrow> msgpack_sbuffer" where
  "msgpack_pack_object obj = [Packed obj]"

text \<open>
  \<open>msgpack_pack_str(pk, n); msgpack_pack_str_body(pk, lit, n)\<close> with a string literal:
  the \<open>n\<close> bytes found at the literal, its terminating NUL included when \<open>n\<close> reaches it.
\<close>

definition msgpack_pack_str_body :: "string \<Rightarrow> nat \<Rightarrow> msgpack_sbuffer" where
  "msgpack_pack_str_body lit n = [Packed (MSGPACK_OBJECT_STR (take n (c_literal lit)))]"

definition msgpack_pack_uint64 :: "int \<Rightarrow> msgpack_sbuffer" where
  "msgpack_pack_uint64 v = [Packed (MSGPACK_OBJECT_POSITIVE_INTEGER (nat (v mod 2 ^ 64)))]"

definition msgpack_pack_int :: "int \<Rightarrow> msgpack_sbuffer" where
  "msgpack_pack_int v =
     [Packed (if 0 \<le> v then MSGPACK_OBJECT_POSITIVE_INTEGER (nat v)
              else MSGPACK_OBJECT_NEGATIVE_INTEGER v)]"


subsection \<open>Reading a buffer back\<close>

text \<open>
  \<open>msgpack_unpack_next\<close> as a stack machine over the buffer: a header opens a frame
  that waits for its declared number of objects; a completed object is handed to the
  innermost open frame. \<open>None\<close> when the buffer ends before the object is complete.
\<close>

datatype frame =
    Array_frame nat "msgpack_object list"
  | Map_frame nat "msgpack_object list"

fun pair_up :: "msgpack_object list \<Rightarrow> msgpack_object_map" where
  "pair_up (k # v # rest) = (k, v) # pair_up rest"
| "pair_up rest = []"

fun deliver :: "msgpack_object \<Rightarrow> frame list \<Rightarrow> msgpack_object + frame list" where
  "deliver x [] = Inl x"
| "deliver x (Array_frame n acc # fs) =
     (if n \<le> 1 then deliver (MSGPACK_OBJECT_ARRAY (rev (x # acc))) fs
      else Inr (Array_frame (n - 1) (x # acc) # fs))"
| "deliver x (Map_frame n acc # fs) =
     (if n \<le> 1 then deliver (MSGPACK_OBJECT_MAP (pair_up (rev (x # acc)))) fs
      else Inr (Map_frame (n - 1) (x # acc) # fs))"

fun unpack_items :: "frame list \<Rightarrow> msgpack_sbuffer \<Rightarrow> (msgpack_object \<times> msgpack_sbuffer) option" where
  "unpack_items fs [] = None"
| "unpack_items fs (Packed x # rest) =
     (case deliver x fs of Inl obj \<Rightarrow> Some (obj, rest) | Inr fs' \<Rightarrow> unpack_items fs' rest)"
| "unpack_items fs (Array_header n # rest) =
     (if n = 0 then
        (case deliver (MSGPACK_OBJECT_ARRAY []) fs of
           Inl obj \<Rightarrow> Some (obj, rest) | Inr fs' \<Rightarrow> unpack_items fs' rest)
      else unpack_items (Array_frame n [] # fs) rest)"
| "unpack_items fs (Map_header n # rest) =
     (if n = 0 then
        (case deliver (MSGPACK_OBJECT_MAP []) fs of
           Inl obj \<Rightarrow> Some (obj, rest) | Inr fs' \<Rightarrow> unpack_items fs' rest)
      else unpack_items (Map_frame (2 * n) [] # fs) rest)"

definition msgpack_unpack_next :: "msgpack_sbuffer \<Rightarrow> (msgpack_object \<times> msgpack_sbuffer) option" where
  "msgpack_unpack_next buf = unpack_items [] buf"

section \<open>Security rules (security\_rules.c)\<close>

definition TG_SECURITY_ACTION_PASS :: int where "TG_SECURITY_ACTION_PASS = 0"
definition TG_SECURITY_ACTION_FLAG :: int where "TG_SECURITY_ACTION_FLAG = 1"
definition TG_SECURITY_ACTION_DROP :: int where "TG_SECURITY_ACTION_DROP = 2"
definition TG_SECURITY_ACTION_ENRICH :: int where "TG_SECURITY_ACTION_ENRICH = 3"

definition TG_RULE_TYPE_FIELD_MATCH :: int where "TG_RULE_TYPE_FIELD_MATCH = 1"
definition TG_RULE_TYPE_FIELD_REGEX :: int where "TG_RULE_TYPE_FIELD_REGEX = 2"
definition TG_RULE_TYPE_FIELD_EXISTS :: int where "TG_RULE_TYPE_FIELD_EXISTS = 3"
definition TG_RULE_TYPE_THREAT_INTEL :: int where "TG_RULE_TYPE_THREAT_INTEL = 4"
definition TG_RULE_TYPE_BEHAVIORAL :: int where "TG_RULE_TYPE_BEHAVIORAL = 5"
definition TG_RULE_TYPE_COMPLIANCE :: int where "TG_RULE_TYPE_COMPLIANCE = 6"

definition TG_COMPLIANCE_NONE :: nat where "TG_COMPLIANCE_NONE = 0"
definition TG_COMPLIANCE_PCI_DSS :: nat where "TG_COMPLIANCE_PCI_DSS = 1"
definition TG_COMPLIANCE_HIPAA :: nat where "TG_COMPLIANCE_HIPAA = 2"
definition TG_COMPLIANCE_SOX :: nat where "TG_COMPLIANCE_SOX = 4"

text \<open>
  \<open>struct tg_security_rule\<close>; the fields carry the prefix \<open>rule_\<close>. The character
  arrays hold C strings; \<open>match_count\<close> is a \<open>uint64_t\<close>, times are \<open>time_t\<close> seconds.
\<close>

record tg_security_rule =
  rule_id :: int
  rule_name :: string
  rule_description :: string
  rule_type :: int
  rule_priority :: int
  rule_action :: int
  rule_enabled :: int
  rule_field_name :: string
  rule_pattern :: string
  rule_compliance_type :: nat
  rule_match_count :: "64 word"
  rule_last_match :: int
  rule_created :: int

text \<open>
  \<open>struct tg_security_ctx\<close>: \<open>rules\<close> is the used part \<open>rules[0 .. rule_count - 1]\<close> of
  the array of 10000 rules, so \<open>rule_count\<close> is its length. The event counters of the
  context are never written by the filter and are left out, as are the hash tables.
\<close>

record tg_security_ctx =
  rules :: "tg_security_rule list"

definition rule_count :: "tg_security_ctx \<Rightarrow> int" where
  "rule_count ctx = int (length (rules ctx))"

subsection \<open>The matchers (filter\_threatguard\_security.c)\<close>

text \<open>
  \<open>key.type == MSGPACK_OBJECT_STR && key.via.str.size == strlen(name) &&
  memcmp(key.via.str.ptr, name, key.via.str.size) == 0\<close>
\<close>

definition key_equals :: "msgpack_object \<Rightarrow> string \<Rightarrow> bool" where
  "key_equals key name = (case key of MSGPACK_OBJECT_STR k \<Rightarrow> k = c_str name | _ \<Rightarrow> False)"

definition tg_security_check_field_match :: "tg_security_rule \<Rightarrow> msgpack_object_map \<Rightarrow> bool" where
  "tg_security_check_field_match rule m =
     list_ex (\<lambda>(key, val). key_equals key (rule_field_name rule) \<and>
        (case val of MSGPACK_OBJECT_STR v \<Rightarrow> v = c_str (rule_pattern rule) | _ \<Rightarrow> False)) m"

definition tg_security_check_field_regex :: "tg_security_rule \<Rightarrow> msgpack_object_map \<Rightarrow> bool" where
  "tg_security_check_field_regex rule m =
     list_ex (\<lambda>(key, val). key_equals key (rule_field_name rule) \<and>
        (case val of MSGPACK_OBJECT_STR v \<Rightarrow> strnstr v (rule_pattern rule) (length v)
         | _ \<Rightarrow> False)) m"

definition tg_security_check_field_exists :: "tg_security_rule \<Rightarrow> msgpack_object_map \<Rightarrow> bool" where
  "tg_security_check_field_exists rule m =
     list_ex (\<lambda>(key, val). key_equals key (rule_field_name rule)) m"

definition malicious_indicators :: "string list" where
  "malicious_indicators =
     [''192.168.1.666'', ''evil.com'', ''malware.exe'', ''backdoor.dll'', ''c2server.net'']"

text \<open>
  \<open>tg_threat_intel_lookup(indicator, indicator_len)\<close>: the bytes are copied and
  NUL-terminated, then searched with \<open>strstr\<close> (allocation is taken to succeed).
\<close>

definition tg_threat_intel_lookup :: "string \<Rightarrow> bool" where
  "tg_threat_intel_lookup indicator =
     (if length indicator = 0 then False
      else list_ex (\<lambda>bad. strstr (c_literal indicator) bad) malicious_indicators)"

definition threat_fields :: "string list" where
  "threat_fields = [''src_ip'', ''dst_ip'', ''domain'', ''url'', ''file_hash'']"

definition tg_security_check_threat_intel :: "tg_security_rule \<Rightarrow> msgpack_object_map \<Rightarrow> bool" where
  "tg_security_check_threat_intel rule m =
     list_ex (\<lambda>field.
        list_ex (\<lambda>(key, val). key_equals key field \<and>
          (case val of MSGPACK_OBJECT_STR v \<Rightarrow> tg_threat_intel_lookup v | _ \<Rightarrow> False)) m)
       threat_fields"

definition tg_security_check_behavioral :: "tg_security_rule \<Rightarrow> msgpack_object_map \<Rightarrow> bool" where
  "tg_security_check_behavioral rule m =
     list_ex (\<lambda>(key, val).
        (case key of
           MSGPACK_OBJECT_STR k \<Rightarrow>
             (case val of
                MSGPACK_OBJECT_STR v \<Rightarrow>
                  strncmp_eq k (c_literal ''event_type'') (length k) \<and>
                  (strnstr v ''privilege'' (length v) \<or>
                   strnstr v ''escalation'' (length v) \<or>
                   strnstr v ''sudo'' (length v))
              | _ \<Rightarrow> False)
         | _ \<Rightarrow> False)) m"

definition tg_security_check_compliance :: "tg_security_rule \<Rightarrow> msgpack_object_map \<Rightarrow> bool" where
  "tg_security_check_compliance rule m =
     list_ex (\<lambda>(key, val).
        (case key of
           MSGPACK_OBJECT_STR k \<Rightarrow>
             (case val of
                MSGPACK_OBJECT_STR v \<Rightarrow>
                  (rule_compliance_type rule AND TG_COMPLIANCE_PCI_DSS \<noteq> 0 \<and>
                     (strnstr v ''payment'' (length v) \<or>
                      strnstr v ''card'' (length v) \<or>
                      strnstr v ''transaction'' (length v)))
                  \<or>
                  (rule_compliance_type rule AND TG_COMPLIANCE_HIPAA \<noteq> 0 \<and>
                     (strnstr v ''patient'' (length v) \<or>
                      strnstr v ''medical'' (length v) \<or>
                      strnstr v ''phi'' (length v)))
              | _ \<Rightarrow> False)
         | _ \<Rightarrow> False)) m"

definition tg_security_rule_matches :: "tg_security_rule \<Rightarrow> msgpack_object_map \<Rightarrow> bool" where
  "tg_security_rule_matches rule m =
     (if rule_type rule = TG_RULE_TYPE_FIELD_MATCH then tg_security_check_field_match rule m
      else if rule_type rule = TG_RULE_TYPE_FIELD_REGEX then tg_security_check_field_regex rule m
      else if rule_type rule = TG_RULE_TYPE_FIELD_EXISTS then tg_security_check_field_exists rule m
      else if rule_type rule = TG_RULE_TYPE_THREAT_INTEL then tg_security_check_threat_intel rule m
      else if rule_type rule = TG_RULE_TYPE_BEHAVIORAL then tg_security_check_behavioral rule m
      else if rule_type rule = TG_RULE_TYPE_COMPLIANCE then tg_security_check_compliance rule m
      else False)"

subsection \<open>tg\_security\_apply\_filter\<close>

text \<open>
  The body of the \<open>for\<close> loop over \<open>ctx->rules\<close>, as a recursion over the rules still
  to be visited. It carries \<open>highest_priority_action\<close> and \<open>highest_priority\<close>, and
  returns the final action with the visited rules, whose statistics are updated on a
  match. \<open>now\<close> is what \<open>time(NULL)\<close> returns while the event is processed.
\<close>

fun apply_rules ::
  "int \<Rightarrow> msgpack_object_map \<Rightarrow> tg_security_rule list \<Rightarrow> int \<Rightarrow> int \<Rightarrow> int \<times> tg_security_rule list"
where
  "apply_rules now m [] highest_priority_action highest_priority =
     (highest_priority_action, [])"
| "apply_rules now m (rule # rest) highest_priority_action highest_priority =
     (if rule_enabled rule = 0 then
        (case apply_rules now m rest highest_priority_action highest_priority of
           (a, rest') \<Rightarrow> (a, rule # rest'))
      else if tg_security_rule_matches rule m then
        (case apply_rules now m rest
                (if rule_priority rule > highest_priority then rule_action rule
                 else highest_priority_action)
                (if rule_priority rule > highest_priority then rule_priority rule
                 else highest_priority) of
           (a, rest') \<Rightarrow>
             (a, rule\<lparr>rule_match_count := rule_match_count rule + 1,
                      rule_last_match := now\<rparr> # rest'))
      else
        (case apply_rules now m rest highest_priority_action highest_priority of
           (a, rest') \<Rightarrow> (a, rule # rest')))"

definition tg_security_apply_filter ::
  "msgpack_object \<Rightarrow> tg_security_ctx \<Rightarrow> int \<Rightarrow> int \<times> tg_security_ctx"
where
  "tg_security_apply_filter obj ctx now =
     (case obj of
        MSGPACK_OBJECT_MAP m \<Rightarrow>
          (case apply_rules now m (rules ctx) TG_SECURITY_ACTION_PASS (- 1) of
             (a, rules') \<Rightarrow> (a, ctx\<lparr>rules := rules'\<rparr>))
      | _ \<Rightarrow> (TG_SECURITY_ACTION_PASS, ctx))"

subsection \<open>tg\_security\_enrich\_event and the filter callback\<close>

definition TG_AGENT_NAME :: string where
  "TG_AGENT_NAME = ''threatguard-agent''"

text \<open>
  What \<open>tg_security_enrich_event\<close> appends to the packer. The header declares
  \<open>map.size + 4\<close> entries (computed in \<open>uint32_t\<close>); the lengths passed with the
  literals are the source's.
\<close>

definition tg_security_enrich_event :: "msgpack_object \<Rightarrow> int \<Rightarrow> msgpack_sbuffer" where
  "tg_security_enrich_event obj now =
     (case obj of
        MSGPACK_OBJECT_MAP m \<Rightarrow>
          msgpack_pack_map (length m + 4) @
          concat (map (\<lambda>(key, val). msgpack_pack_object key @ msgpack_pack_object val) m) @
          msgpack_pack_str_body ''tg_security_tag'' 15 @
          msgpack_pack_str_body ''flagged'' 8 @
          msgpack_pack_str_body ''tg_detection_time'' 18 @
          msgpack_pack_uint64 now @
          msgpack_pack_str_body ''tg_threat_score'' 16 @
          msgpack_pack_int 75 @
          msgpack_pack_str_body ''tg_agent_id'' 12 @
          msgpack_pack_str_body TG_AGENT_NAME (length (c_str TG_AGENT_NAME))
      | _ \<Rightarrow> msgpack_pack_object obj)"

text \<open>
  The body of the \<open>while\<close> loop of \<open>tg_security_filter\<close> for one unpacked record
  \<open>root\<close>: what it appends to the output buffer, and the context afterwards. The
  counters \<open>processed\<close>, \<open>flagged\<close> and \<open>dropped\<close> are only logged and are left out.
\<close>

definition tg_security_filter_record ::
  "tg_security_ctx \<Rightarrow> msgpack_object \<Rightarrow> int \<Rightarrow> msgpack_sbuffer \<times> tg_security_ctx"
where
  "tg_security_filter_record ctx root now =
     (case tg_security_apply_filter root ctx now of
        (action, ctx') \<Rightarrow>
          (if action = TG_SECURITY_ACTION_PASS then msgpack_pack_object root
           else if action = TG_SECURITY_ACTION_FLAG then tg_security_enrich_event root now
           else if action = TG_SECURITY_ACTION_DROP then []
           else if action = TG_SECURITY_ACTION_ENRICH then tg_security_enrich_event root now
           else msgpack_pack_object root,
           ctx'))"

text \<open>The loop over the records of the incoming chunk.\<close>

fun tg_security_filter ::
  "tg_security_ctx \<Rightarrow> msgpack_object list \<Rightarrow> int \<Rightarrow> msgpack_sbuffer \<times> tg_security_ctx"
where
  "tg_security_filter ctx [] now = ([], ctx)"
| "tg_security_filter ctx (root # records) now =
     (case tg_security_filter_record ctx root now of
        (out, ctx') \<Rightarrow>
          (case tg_security_filter ctx' records now of
             (outs, ctx'') \<Rightarrow> (out @ outs, ctx'')))"

definition obj_is_map :: "msgpack_object \<Rightarrow> bool" where
  "obj_is_map obj = (case obj of MSGPACK_OBJECT_MAP m \<Rightarrow> True | _ \<Rightarrow> False)"

subsection \<open>Priority resolution as the specification words it\<close>

text \<open>The enabled rules that match the event, in the order of the rule store.\<close>

definition matching_rules :: "tg_security_rule list \<Rightarrow> msgpack_object_map \<Rightarrow> tg_security_rule list" where
  "matching_rules rs m = filter (\<lambda>r. rule_enabled r \<noteq> 0 \<and> tg_security_rule_matches r m) rs"

text \<open>
  The specification's resolution, for comparison with the code: among the matched
  rules the highest priority wins, ties go to the lowest rule id, and no match
  means pass.
\<close>

definition spec_preferred :: "tg_security_rule \<Rightarrow> tg_security_rule \<Rightarrow> tg_security_rule" where
  "spec_preferred best c =
     (if rule_priority c > rule_priority best
         \<or> (rule_priority c = rule_priority best \<and> rule_id c < rule_id best)
      then c else best)"

definition spec_chosen_action :: "tg_security_rule list \<Rightarrow> msgpack_object_map \<Rightarrow> int" where
  "spec_chosen_action rs m =
     (case matching_rules rs m of
        [] \<Rightarrow> TG_SECURITY_ACTION_PASS
      | r # rest \<Rightarrow> rule_action (foldl spec_preferred r rest))"

text \<open>
  Two rules on the same field with equal priority, the one with the larger id stored
  first, as a rules file may list them; and an event carrying that field.
\<close>

definition tie_rule_first :: tg_security_rule where
  "tie_rule_first =
     \<lparr>rule_id = 7, rule_name = ''flag logins'', rule_description = [],
      rule_type = TG_RULE_TYPE_FIELD_EXISTS, rule_priority = 50,
      rule_action = TG_SECURITY_ACTION_FLAG, rule_enabled = 1,
      rule_field_name = ''user'', rule_pattern = ''x'',
      rule_compliance_type = TG_COMPLIANCE_NONE,
      rule_match_count = 0, rule_last_match = 0, rule_created = 0\<rparr>"

definition tie_rule_second :: tg_security_rule where
  "tie_rule_second =
     \<lparr>rule_id = 3, rule_name = ''drop logins'', rule_description = [],
      rule_type = TG_RULE_TYPE_FIELD_EXISTS, rule_priority = 50,
      rule_action = TG_SECURITY_ACTION_DROP, rule_enabled = 1,
      rule_field_name = ''user'', rule_pattern = ''x'',
      rule_compliance_type = TG_COMPLIANCE_NONE,
      rule_match_count = 0, rule_last_match = 0, rule_created = 0\<rparr>"

definition tie_ctx :: tg_security_ctx where
  "tie_ctx = \<lparr>rules = [tie_rule_first, tie_rule_second]\<rparr>"

definition login_event :: msgpack_object_map where
  "login_event = [(MSGPACK_OBJECT_STR ''user'', MSGPACK_OBJECT_STR ''root'')]"

subsection \<open>Reading an enriched event\<close>

text \<open>
  The event a downstream reader gets from what the enricher packed, and the event
  after a second pass through the enricher.
\<close>

definition enriched_event :: "msgpack_object \<Rightarrow> int \<Rightarrow> msgpack_object option" where
  "enriched_event obj now =
     map_option fst (msgpack_unpack_next (tg_security_enrich_event obj now))"

definition enriched_twice :: "msgpack_object \<Rightarrow> int \<Rightarrow> int \<Rightarrow> msgpack_object option" where
  "enriched_twice obj t1 t2 =
     (case enriched_event obj t1 of None \<Rightarrow> None | Some e \<Rightarrow> enriched_event e t2)"

text \<open>The values of all entries of a map whose key is the given field name, in order.\<close>

definition field_values :: "string \<Rightarrow> msgpack_object_map \<Rightarrow> msgpack_object list" where
  "field_values name m = map snd (filter (\<lambda>(key, val). key_equals key name) m)"

definition obj_field_values :: "string \<Rightarrow> msgpack_object \<Rightarrow> msgpack_object list" where
  "obj_field_values name obj =
     (case obj of MSGPACK_OBJECT_MAP m \<Rightarrow> field_values name m | _ \<Rightarrow> [])"

text \<open>A rule of priority 100 on the field of the login event.\<close>

definition critical_rule :: tg_security_rule where
  "critical_rule =
     \<lparr>rule_id = 9, rule_name = ''critical logins'', rule_description = [],
      rule_type = TG_RULE_TYPE_FIELD_EXISTS, rule_priority = 100,
      rule_action = TG_SECURITY_ACTION_FLAG, rule_enabled = 1,
      rule_field_name = ''user'', rule_pattern = ''x'',
      rule_compliance_type = TG_COMPLIANCE_NONE,
      rule_match_count = 0, rule_last_match = 0, rule_created = 0\<rparr>"

definition critical_ctx :: tg_security_ctx where
  "critical_ctx = \<lparr>rules = [critical_rule]\<rparr>"

text \<open>The keys and values of a map in the order the packer writes them.\<close>

fun flatten_entries :: "msgpack_object_map \<Rightarrow> msgpack_object list" where
  "flatten_entries [] = []"
| "flatten_entries ((k, v) # m) = k # v # flatten_entries m"

text \<open>
  The eight objects (four keys, four values) the enricher packs after the entries of
  the event, as the bytes the packer is given: the lengths 8, 18, 16 and 12 passed
  with \<open>"flagged"\<close>, \<open>"tg_detection_time"\<close>, \<open>"tg_threat_score"\<close> and \<open>"tg_agent_id"\<close>
  take in the literal's terminating NUL.
\<close>

definition enrichment_items :: "int \<Rightarrow> msgpack_object list" where
  "enrichment_items now =
     [MSGPACK_OBJECT_STR ''tg_security_tag'',
      MSGPACK_OBJECT_STR (''flagged'' @ [NUL]),
      MSGPACK_OBJECT_STR (''tg_detection_time'' @ [NUL]),
      MSGPACK_OBJECT_POSITIVE_INTEGER (nat (now mod 2 ^ 64)),
      MSGPACK_OBJECT_STR (''tg_threat_score'' @ [NUL]),
      MSGPACK_OBJECT_POSITIVE_INTEGER 75,
      MSGPACK_OBJECT_STR (''tg_agent_id'' @ [NUL]),
      MSGPACK_OBJECT_STR ''threatguard-agent'']"

section \<open>Batched egress (out\_threatguard\_platform.c)\<close>

text \<open>
  \<open>struct tg_platform_ctx\<close>, the fields the batching and flushing code reads or
  writes. The connection settings (\<open>host\<close>, \<open>port\<close>, \<open>uri\<close>, \<open>api_key\<close>, \<open>timeout\<close>,
  \<open>tls_verify\<close>), \<open>connected\<close>, \<open>last_connect_attempt\<close> and the byte counter
  \<open>bytes_sent\<close> are left out: no byte encoding is fixed here. The statistics are
  \<open>uint64_t\<close>; the other numbers are \<open>int\<close> and \<open>time_t\<close>.
\<close>

record tg_platform_ctx =
  batch_size :: int
  retry_limit :: int
  compress :: int
  current_retry_count :: int
  batch_buffer :: msgpack_sbuffer
  batch_count :: int
  batch_start_time :: int
  batch_max_wait_time :: int
  events_sent :: "64 word"
  events_failed :: "64 word"
  batches_sent :: "64 word"
  connection_errors :: "64 word"
  http_errors :: "64 word"
  last_success :: int
  last_error :: int
  consecutive_failures :: int

text \<open>
  \<open>tg_platform_init\<close>. The context comes zeroed from \<open>flb_calloc\<close>. The callback reads
  one property of the instance, \<open>api_key\<close>, and fails without it; it then assigns the
  batching, connection, statistics and health fields. The other properties the plugin
  declares (\<open>host\<close>, \<open>port\<close>, \<open>uri\<close>, \<open>batch_size\<close>, \<open>timeout\<close>, \<open>retry_limit\<close>, \<open>compress\<close>,
  \<open>tls_verify\<close>) are never copied into the context, as the callback does not call
  \<open>flb_output_config_map_set\<close>: \<open>batch_size\<close>, \<open>retry_limit\<close> and \<open>compress\<close> are 0 whatever
  the instance was configured with. With \<open>port\<close> 0 the upstream is asked for over
  plain TCP and no TLS is configured; the callback fails when \<open>flb_upstream_create\<close>
  gives none. Allocation is taken to succeed. The result is the context handed to
  \<open>flb_output_set_context\<close>, or \<open>None\<close> where the callback returns -1.
\<close>

definition tg_platform_init :: "(string \<rightharpoonup> string) \<Rightarrow> bool \<Rightarrow> tg_platform_ctx option" where
  "tg_platform_init properties upstream_created =
     (case properties ''api_key'' of
        None \<Rightarrow> None
      | Some key \<Rightarrow>
          if \<not> upstream_created then None
          else Some
            \<lparr>batch_size = 0, retry_limit = 0, compress = 0,
             current_retry_count = 0, batch_buffer = [], batch_count = 0,
             batch_start_time = 0, batch_max_wait_time = 30,
             events_sent = 0, events_failed = 0, batches_sent = 0,
             connection_errors = 0, http_errors = 0,
             last_success = 0, last_error = 0, consecutive_failures = 0\<rparr>)"

text \<open>
  What one transmission attempt meets: \<open>flb_upstream_conn_get\<close> gives no connection,
  \<open>flb_http_client\<close> gives no client, \<open>flb_http_do\<close> fails, or it returns 0 with a
  response status.
\<close>

datatype send_outcome =
    No_connection
  | No_http_client
  | Network_error
  | Http_status int

text \<open>
  The request handed to \<open>flb_http_do\<close>: its body, whether the \<open>Content-Encoding: gzip\<close>
  header was added, and the number written to \<open>X-ThreatGuard-Batch-Size\<close>.
\<close>

record http_request =
  body :: msgpack_sbuffer
  content_encoding_gzip :: bool
  batch_size_header :: int

text \<open>
  \<open>tg_platform_add_to_batch\<close>: an empty batch is started with an array header that
  declares \<open>ctx->batch_size\<close> elements (an \<open>int\<close> passed as \<open>size_t\<close>), then the event
  is appended. It returns 0.
\<close>

definition tg_platform_add_to_batch ::
  "tg_platform_ctx \<Rightarrow> msgpack_object \<Rightarrow> int \<Rightarrow> int \<times> tg_platform_ctx"
where
  "tg_platform_add_to_batch ctx event now =
     (let ctx1 =
        (if batch_count ctx = 0
         then ctx\<lparr>batch_buffer := msgpack_pack_array (nat (batch_size ctx mod 2 ^ 64)),
                  batch_start_time := now\<rparr>
         else ctx)
      in (0, ctx1\<lparr>batch_buffer := batch_buffer ctx1 @ msgpack_pack_object event,
                   batch_count := batch_count ctx1 + 1\<rparr>))"

definition tg_platform_should_flush_batch :: "tg_platform_ctx \<Rightarrow> int \<Rightarrow> bool" where
  "tg_platform_should_flush_batch ctx now =
     (if batch_count ctx = 0 then False
      else if batch_count ctx \<ge> batch_size ctx then True
      else if now - batch_start_time ctx \<ge> batch_max_wait_time ctx then True
      else False)"

text \<open>
  \<open>tg_platform_compress_data\<close> copies its input, so \<open>compressed_size < data_size\<close> never
  holds and the body sent is the batch buffer itself; the gzip header is still added
  when \<open>compress\<close> is set (allocation is taken to succeed).
\<close>

definition batch_request :: "tg_platform_ctx \<Rightarrow> http_request" where
  "batch_request ctx =
     \<lparr>body = batch_buffer ctx,
      content_encoding_gzip = (compress ctx \<noteq> 0),
      batch_size_header = batch_count ctx\<rparr>"

definition record_failure :: "bool \<Rightarrow> int \<Rightarrow> tg_platform_ctx \<Rightarrow> tg_platform_ctx" where
  "record_failure http now ctx =
     (if http
      then ctx\<lparr>http_errors := http_errors ctx + 1,
               consecutive_failures := consecutive_failures ctx + 1, last_error := now\<rparr>
      else ctx\<lparr>connection_errors := connection_errors ctx + 1,
               consecutive_failures := consecutive_failures ctx + 1, last_error := now\<rparr>)"

text \<open>
  \<open>tg_platform_flush_batch\<close>: one transmission attempt. It returns the C return value,
  the context, and the request when one was handed to \<open>flb_http_do\<close>.
\<close>

definition tg_platform_flush_batch ::
  "tg_platform_ctx \<Rightarrow> send_outcome \<Rightarrow> int \<Rightarrow> int \<times> tg_platform_ctx \<times> http_request option"
where
  "tg_platform_flush_batch ctx outcome now =
     (if batch_count ctx = 0 then (- 1, ctx, None)
      else
        (case outcome of
           No_connection \<Rightarrow> (- 1, record_failure False now ctx, None)
         | No_http_client \<Rightarrow> (- 1, ctx, None)
         | Network_error \<Rightarrow> (- 1, record_failure False now ctx, Some (batch_request ctx))
         | Http_status status \<Rightarrow>
             (if status = 200 \<or> status = 202 then (0, ctx, Some (batch_request ctx))
              else (- 1, record_failure True now ctx, Some (batch_request ctx)))))"

definition tg_platform_reset_batch :: "tg_platform_ctx \<Rightarrow> tg_platform_ctx" where
  "tg_platform_reset_batch ctx = ctx\<lparr>batch_buffer := [], batch_count := 0, batch_start_time := 0\<rparr>"

text \<open>
  The environment scripts the transmission attempts as a list of outcomes, consumed
  one per attempt; when the script has run out the upstream gives no connection.
\<close>

definition next_outcome :: "send_outcome list \<Rightarrow> send_outcome \<times> send_outcome list" where
  "next_outcome script = (case script of [] \<Rightarrow> (No_connection, []) | x # xs \<Rightarrow> (x, xs))"

text \<open>
  The part of the loop body of \<open>tg_platform_flush\<close> that runs when the batch is due:
  one call of \<open>tg_platform_flush_batch\<close>, the accounting on its return value, and the
  reset of the batch.
\<close>

definition flush_due_batch ::
  "tg_platform_ctx \<Rightarrow> send_outcome \<Rightarrow> int \<Rightarrow> tg_platform_ctx \<times> http_request option"
where
  "flush_due_batch ctx outcome now =
     (case tg_platform_flush_batch ctx outcome now of
        (ret, ctx1, req) \<Rightarrow>
          (tg_platform_reset_batch
             (if ret \<noteq> 0
              then ctx1\<lparr>events_failed := events_failed ctx1 + word_of_int (batch_count ctx1)\<rparr>
              else ctx1\<lparr>events_sent := events_sent ctx1 + word_of_int (batch_count ctx1),
                        batches_sent := batches_sent ctx1 + 1,
                        last_success := now,
                        consecutive_failures := 0\<rparr>),
           req))"

text \<open>
  \<open>tg_platform_flush\<close> over the records of a chunk, each paired with the clock reading
  while it is handled. It returns the context, the unused part of the script and the
  requests made, in order.
\<close>

fun tg_platform_flush ::
  "tg_platform_ctx \<Rightarrow> (int \<times> msgpack_object) list \<Rightarrow> send_outcome list
     \<Rightarrow> tg_platform_ctx \<times> send_outcome list \<times> http_request list"
where
  "tg_platform_flush ctx [] script = (ctx, script, [])"
| "tg_platform_flush ctx ((now, root) # records) script =
     (case tg_platform_add_to_batch ctx root now of
        (ret, ctx1) \<Rightarrow>
          (if ret \<noteq> 0 then tg_platform_flush ctx1 records script
           else if tg_platform_should_flush_batch ctx1 now then
             (case flush_due_batch ctx1 (fst (next_outcome script)) now of
                (ctx2, req) \<Rightarrow>
                  (case tg_platform_flush ctx2 records (snd (next_outcome script)) of
                     (ctx3, script', reqs) \<Rightarrow>
                       (ctx3, script', (case req of None \<Rightarrow> reqs | Some r \<Rightarrow> r # reqs))))
           else tg_platform_flush ctx1 records script))"

text \<open>\<open>tg_platform_exit\<close>: the pending batch is handed to one transmission attempt.\<close>

definition tg_platform_exit ::
  "tg_platform_ctx \<Rightarrow> send_outcome \<Rightarrow> int \<Rightarrow> tg_platform_ctx \<times> http_request option"
where
  "tg_platform_exit ctx outcome now =
     (if batch_count ctx > 0
      then (case tg_platform_flush_batch ctx outcome now of (ret, ctx1, req) \<Rightarrow> (ctx1, req))
      else (ctx, None))"

text \<open>
  Two events, and the properties of an output instance: an API key, batches of 1000
  events, three retries and compression.
\<close>

definition output_properties :: "string \<rightharpoonup> string" where
  "output_properties =
     map_of [(''api_key'', ''secret''), (''batch_size'', ''1000''), (''retry_limit'', ''3''),
             (''compress'', ''true'')]"

definition event_a :: msgpack_object where
  "event_a = MSGPACK_OBJECT_MAP [(MSGPACK_OBJECT_STR ''message'', MSGPACK_OBJECT_STR ''first'')]"

definition event_b :: msgpack_object where
  "event_b = MSGPACK_OBJECT_MAP [(MSGPACK_OBJECT_STR ''message'', MSGPACK_OBJECT_STR ''second'')]"

section \<open>Loading rules (security\_rules.c)\<close>

text \<open>
  \<open>tg_security_add_rule\<close>: refuses with -1 when the array is full, otherwise fills the
  next slot and returns 0. The strings are copied with \<open>strncpy\<close> into the zeroed
  arrays of the slot (\<open>name[128]\<close>, \<open>description[256]\<close>, \<open>field_name[64]\<close>,
  \<open>pattern[256]\<close>).
\<close>

definition tg_security_add_rule ::
  "tg_security_ctx \<Rightarrow> int \<Rightarrow> string \<Rightarrow> string \<Rightarrow> int \<Rightarrow> int \<Rightarrow> int \<Rightarrow> string \<Rightarrow> string \<Rightarrow> int
     \<Rightarrow> int \<times> tg_security_ctx"
where
  "tg_security_add_rule ctx ident name description type priority action field_name pattern now =
     (if rule_count ctx \<ge> 10000 then (- 1, ctx)
      else
        (0, ctx\<lparr>rules := rules ctx @
           [\<lparr>rule_id = ident,
             rule_name = strncpy name 127,
             rule_description = strncpy description 255,
             rule_type = type,
             rule_priority = priority,
             rule_action = action,
             rule_enabled = 1,
             rule_field_name = strncpy field_name 63,
             rule_pattern = strncpy pattern 255,
             rule_compliance_type = TG_COMPLIANCE_NONE,
             rule_match_count = 0,
             rule_last_match = 0,
             rule_created = now\<rparr>]\<rparr>))"

text \<open>
  The tokens successive \<open>strtok\<close> calls return for one delimiter: the maximal
  non-empty runs of other bytes, so leading and repeated delimiters produce no empty
  token.
\<close>

fun split_tokens :: "char \<Rightarrow> string \<Rightarrow> string \<Rightarrow> string list" where
  "split_tokens d cur [] = (if cur = [] then [] else [rev cur])"
| "split_tokens d cur (c # cs) =
     (if c = d then (if cur = [] then split_tokens d [] cs else rev cur # split_tokens d [] cs)
      else split_tokens d (c # cur) cs)"

definition strtok_tokens :: "char \<Rightarrow> string \<Rightarrow> string list" where
  "strtok_tokens d s = split_tokens d [] (c_str s)"

text \<open>
  \<open>atoi\<close> as glibc computes it: leading white space, an optional sign, the leading
  digits; \<open>strtol\<close> saturates at the range of \<open>long\<close> and the result is cut to \<open>int\<close>.
\<close>

definition isspace :: "char \<Rightarrow> bool" where
  "isspace c = (c = CHR '' '' \<or> c = CHR 0x09 \<or> c = CHR 0x0A \<or> c = CHR 0x0B
     \<or> c = CHR 0x0C \<or> c = CHR 0x0D)"

definition isdigit :: "char \<Rightarrow> bool" where
  "isdigit c = (48 \<le> (of_char c :: nat) \<and> (of_char c :: nat) \<le> 57)"

fun digits_value :: "int \<Rightarrow> string \<Rightarrow> int" where
  "digits_value acc [] = acc"
| "digits_value acc (c # cs) =
     (if isdigit c then digits_value (10 * acc + (int (of_char c) - 48)) cs else acc)"

definition strtol10 :: "string \<Rightarrow> int" where
  "strtol10 s =
     (let t = dropWhile isspace s;
          v = (case t of
                 [] \<Rightarrow> 0
               | c # r \<Rightarrow>
                   (if c = CHR ''-'' then - digits_value 0 r
                    else if c = CHR ''+'' then digits_value 0 r
                    else digits_value 0 t))
      in max (- (2 ^ 63)) (min (2 ^ 63 - 1) v))"

definition atoi :: "string \<Rightarrow> int" where
  "atoi s = sint (word_of_int (strtol10 s) :: 32 word)"

text \<open>
  The tokenising loop of \<open>tg_security_load_rules_file\<close>: \<open>tokens[0 .. token_count - 1]\<close>
  are assigned, at most seven.
\<close>

definition rule_line_tokens :: "string \<Rightarrow> string list" where
  "rule_line_tokens line = take 7 (strtok_tokens (CHR ''|'') line)"

text \<open>
  \<open>char *tokens[7]\<close> is declared without an initialiser in the loop body. Reading an
  element that the tokenising loop did not assign is undefined behaviour; the model
  stops there with an error.
\<close>

datatype rules_error = Uninitialised_token_read nat

definition token_at :: "string list \<Rightarrow> nat \<Rightarrow> rules_error + string" where
  "token_at tokens i = (if i < length tokens then Inr (tokens ! i) else Inl (Uninitialised_token_read i))"

text \<open>
  The body of the \<open>while\<close> loop for one line as \<open>fgets\<close> delivered it (at most 511
  bytes, with its newline when it fits). The state is the context and \<open>rules_loaded\<close>.
\<close>

definition load_rule_line ::
  "tg_security_ctx \<Rightarrow> int \<Rightarrow> string \<Rightarrow> int \<Rightarrow> rules_error + (tg_security_ctx \<times> int)"
where
  "load_rule_line ctx rules_loaded line now =
     (case line of
        [] \<Rightarrow> Inr (ctx, rules_loaded)
      | c # cs \<Rightarrow>
          (if c = CHR ''#'' \<or> c = CHR 0x0A \<or> c = NUL then Inr (ctx, rules_loaded)
           else
             (let tokens = rule_line_tokens line; token_count = length tokens in
              if token_count \<ge> 6 then
                (case token_at tokens 6 of
                   Inl e \<Rightarrow> Inl e
                 | Inr pattern \<Rightarrow>
                     (case tg_security_add_rule ctx (atoi (tokens ! 0)) (tokens ! 1) []
                             (atoi (tokens ! 2)) (atoi (tokens ! 3)) (atoi (tokens ! 4))
                             (tokens ! 5) (takeWhile (\<lambda>x. x \<noteq> CHR 0x0A) pattern) now of
                        (ret, ctx') \<Rightarrow>
                          Inr (ctx', if ret = 0 then rules_loaded + 1 else rules_loaded)))
              else Inr (ctx, rules_loaded))))"

fun load_rule_lines ::
  "tg_security_ctx \<Rightarrow> int \<Rightarrow> string list \<Rightarrow> int \<Rightarrow> rules_error + (tg_security_ctx \<times> int)"
where
  "load_rule_lines ctx rules_loaded [] now = Inr (ctx, rules_loaded)"
| "load_rule_lines ctx rules_loaded (line # rest) now =
     (if rule_count ctx < 10000 then
        (case load_rule_line ctx rules_loaded line now of
           Inl e \<Rightarrow> Inl e
         | Inr (ctx', n) \<Rightarrow> load_rule_lines ctx' n rest now)
      else Inr (ctx, rules_loaded))"

text \<open>
  \<open>tg_security_load_rules_file\<close>: \<open>None\<close> is a file that cannot be opened; otherwise
  the lines \<open>fgets\<close> delivers. The result is the return value and the context.
\<close>

definition tg_security_load_rules_file ::
  "tg_security_ctx \<Rightarrow> string list option \<Rightarrow> int \<Rightarrow> rules_error + (int \<times> tg_security_ctx)"
where
  "tg_security_load_rules_file ctx file now =
     (case file of
        None \<Rightarrow> Inr (- 1, ctx)
      | Some file_lines \<Rightarrow>
          (case load_rule_lines ctx 0 file_lines now of
             Inl e \<Rightarrow> Inl e
           | Inr (ctx', n) \<Rightarrow> Inr (n, ctx')))"

text \<open>Three lines of a rules file, with five, six and seven fields.\<close>

definition line_five_fields :: string where
  "line_five_fields = ''12|brute force|2|90|1'' @ [CHR 0x0A]"

definition line_six_fields :: string where
  "line_six_fields = ''12|brute force|2|90|1|message'' @ [CHR 0x0A]"

definition line_seven_fields :: string where
  "line_seven_fields = ''12|brute force|2|90|1|message|failed login'' @ [CHR 0x0A]"

section \<open>Discovery (discovery\_engine.c, in\_threatguard\_discovery.c)\<close>

text \<open>
  The structures of threatguard.h. \<open>cpu_cores\<close> is a \<open>uint32_t\<close>, the sizes are
  \<open>uint64_t\<close> megabytes, the compliance set is a bit set. The fields \<open>id\<close>, \<open>name\<close> and
  \<open>domain\<close> of an organization carry the prefix \<open>org_\<close>, those of a tool the prefix
  \<open>tool_\<close>, and \<open>batch_size\<close> of the agent configuration is \<open>agent_batch_size\<close>.
\<close>

record tg_system_info =
  hostname :: string
  platform_type :: int
  os_version :: string
  architecture :: string
  cpu_cores :: nat
  total_memory :: nat
  disk_space :: nat
  boot_time :: int
  interface_count :: int
  interfaces :: "(string \<times> string \<times> nat) list"

record tg_security_tool =
  tool_name :: string
  tool_vendor :: string
  tool_version :: string
  tool_type :: int
  tool_active :: int
  tool_config_path :: string
  tool_log_path :: string

record tg_organization =
  org_id :: string
  org_name :: string
  org_domain :: string
  compliance_requirements :: nat
  detection_confidence :: int
  detection_method :: string

record tg_discovery_result =
  system :: tg_system_info
  organization :: tg_organization
  security_tools :: "tg_security_tool list"
  security_tool_count :: int
  discovery_time :: int
  overall_confidence :: int

record tg_agent_config =
  collection_interval :: int
  agent_batch_size :: int
  max_memory_mb :: int
  max_cpu_percent :: int
  enable_encryption :: int
  enable_compression :: int
  api_key :: string
  endpoint_url :: string
  discovery_interval :: int
  enable_auto_config :: int
  required_compliance :: nat
  retention_days :: int
  fluent_bit_config :: string
  config_generated :: int


text \<open>
  \<open>tg_discovery_generate_config\<close>. The helper \<open>tg_config_generate_fluent_bit\<close> is declared
  in threatguard.h and its body is not among the sources: it is the parameter
  \<open>generate_fluent_bit\<close>, giving from the configuration its return value and the text
  it leaves in \<open>fluent_bit_config\<close>. \<open>max\<close> is the usual macro. The six
  adjustments are the successive \<open>if\<close> statements of the function, each acting on
  the configuration the previous ones left.
\<close>

definition adjust_for_memory :: "tg_discovery_result \<Rightarrow> tg_agent_config \<Rightarrow> tg_agent_config" where
  "adjust_for_memory result config =
     (if total_memory (system result) < 2048
      then config\<lparr>max_memory_mb := 32, agent_batch_size := 50\<rparr>
      else if total_memory (system result) > 8192
      then config\<lparr>max_memory_mb := 128, agent_batch_size := 500\<rparr>
      else config)"

definition adjust_for_cores :: "tg_discovery_result \<Rightarrow> tg_agent_config \<Rightarrow> tg_agent_config" where
  "adjust_for_cores result config =
     (if cpu_cores (system result) > 8 then config\<lparr>max_cpu_percent := 10\<rparr>
      else if cpu_cores (system result) < 4 then config\<lparr>max_cpu_percent := 2\<rparr>
      else config)"

definition adjust_for_security_tools :: "tg_discovery_result \<Rightarrow> tg_agent_config \<Rightarrow> tg_agent_config" where
  "adjust_for_security_tools result config =
     (if security_tool_count result > 3
      then config\<lparr>max_cpu_percent := max 1 (max_cpu_percent config - 1),
                  collection_interval := 120\<rparr>
      else config)"

definition adjust_for_pci_dss :: "tg_discovery_result \<Rightarrow> tg_agent_config \<Rightarrow> tg_agent_config" where
  "adjust_for_pci_dss result config =
     (if compliance_requirements (organization result) AND TG_COMPLIANCE_PCI_DSS \<noteq> 0
      then config\<lparr>enable_encryption := 1, retention_days := 365, collection_interval := 30\<rparr>
      else config)"

definition adjust_for_hipaa :: "tg_discovery_result \<Rightarrow> tg_agent_config \<Rightarrow> tg_agent_config" where
  "adjust_for_hipaa result config =
     (if compliance_requirements (organization result) AND TG_COMPLIANCE_HIPAA \<noteq> 0
      then config\<lparr>enable_encryption := 1, retention_days := 2190\<rparr>
      else config)"

definition adjust_for_sox :: "tg_discovery_result \<Rightarrow> tg_agent_config \<Rightarrow> tg_agent_config" where
  "adjust_for_sox result config =
     (if compliance_requirements (organization result) AND TG_COMPLIANCE_SOX \<noteq> 0
      then config\<lparr>retention_days := 2555, enable_encryption := 1\<rparr>
      else config)"

definition tg_discovery_generate_config ::
  "(tg_agent_config \<Rightarrow> int \<times> string) \<Rightarrow> tg_agent_config \<Rightarrow> tg_discovery_result \<Rightarrow> int
     \<Rightarrow> int \<times> tg_agent_config"
where
  "tg_discovery_generate_config generate_fluent_bit config result now =
     (let adjusted =
            adjust_for_sox result
              (adjust_for_hipaa result
                (adjust_for_pci_dss result
                  (adjust_for_security_tools result
                    (adjust_for_cores result
                      (adjust_for_memory result config)))));
          ret = fst (generate_fluent_bit adjusted);
          written = adjusted\<lparr>fluent_bit_config := snd (generate_fluent_bit adjusted)\<rparr>
      in if ret \<noteq> 0 then (ret, written) else (0, written\<lparr>config_generated := now\<rparr>))"






definition empty_organization :: tg_organization where
  "empty_organization =
     \<lparr>org_id = [], org_name = [], org_domain = [], compliance_requirements = 0,
      detection_confidence = 0, detection_method = []\<rparr>"

text \<open>
  The security-tool scan. The platform scanners (\<open>tg_linux_scan_security_tools\<close>,
  \<open>tg_windows_scan_security_tools\<close> and the scanner of macos\_discovery.c) start from an
  empty list and a count of 0 and run their checks in a fixed order. A check that
  finds its tool allocates an entry, links it in front of the list and returns a
  non-zero number; a check that does not find it, or cannot probe or allocate, leaves
  the list alone and returns 0. The scanner adds one to the count for each check that
  returned non-zero, stores the list and returns the count. What a check links in is
  the environment: the tools in the order the check links them (at most one, except
  for the macOS check of the Objective-See applications, which links one entry per
  application found and returns their number).
\<close>

definition run_check ::
  "tg_security_tool list \<Rightarrow> int \<times> tg_security_tool list \<Rightarrow> int \<times> tg_security_tool list"
where
  "run_check found scan =
     (case scan of
        (count, tool_list) \<Rightarrow>
          ((if int (length found) \<noteq> 0 then count + 1 else count), rev found @ tool_list))"

definition scan_security_tools_checks ::
  "tg_security_tool list list \<Rightarrow> int \<times> tg_security_tool list"
where
  "scan_security_tools_checks checks = foldl (\<lambda>scan found. run_check found scan) (0, []) checks"

text \<open>
  \<open>tg_discovery_scan_security_tools\<close>, as \<open>tg_discovery_collect\<close> calls it, with the address
  of the result's list: it clears the list and returns what the platform scanner
  returns; built for none of the three platforms (\<open>None\<close>) it warns and returns 0. Its
  one negative return is for a null argument.
\<close>

definition tg_discovery_scan_security_tools ::
  "tg_security_tool list list option \<Rightarrow> int \<times> tg_security_tool list"
where
  "tg_discovery_scan_security_tools platform_checks =
     (case platform_checks of
        None \<Rightarrow> (0, [])
      | Some checks \<Rightarrow> scan_security_tools_checks checks)"



text \<open>
  The configuration \<open>tg_discovery_init\<close> sets up, a host with four cores and 4 GB,
  three active security tools, and a generator that succeeds.
\<close>

definition default_agent_config :: tg_agent_config where
  "default_agent_config =
     \<lparr>collection_interval = 60, agent_batch_size = 100, max_memory_mb = 80,
      max_cpu_percent = 5, enable_encryption = 1, enable_compression = 1,
      api_key = [], endpoint_url = [], discovery_interval = 300, enable_auto_config = 1,
      required_compliance = 0, retention_days = 90, fluent_bit_config = [],
      config_generated = 0\<rparr>"

definition office_host :: tg_system_info where
  "office_host =
     \<lparr>hostname = ''ws-17'', platform_type = 4, os_version = ''6.8'', architecture = ''x86_64'',
      cpu_cores = 4, total_memory = 4096, disk_space = 200000, boot_time = 1690000000,
      interface_count = 0, interfaces = []\<rparr>"

definition active_tool :: "string \<Rightarrow> tg_security_tool" where
  "active_tool n =
     \<lparr>tool_name = n, tool_vendor = ''vendor'', tool_version = ''Unknown'', tool_type = 1,
      tool_active = 1, tool_config_path = [], tool_log_path = []\<rparr>"

definition three_tools :: "tg_security_tool list" where
  "three_tools = [active_tool ''ClamAV'', active_tool ''auditd'', active_tool ''Suricata'']"

definition three_tool_result :: tg_discovery_result where
  "three_tool_result =
     \<lparr>system = office_host, organization = empty_organization,
      security_tools = three_tools, security_tool_count = 3,
      discovery_time = 1700000000, overall_confidence = 40\<rparr>"

definition generator_ok :: "tg_agent_config \<Rightarrow> int \<times> string" where
  "generator_ok config = (0, ''[SERVICE]'')"

text \<open>The CPU limit after the rule on the number of cores, before the rule on tools.\<close>

definition cpu_after_cores :: "tg_agent_config \<Rightarrow> tg_discovery_result \<Rightarrow> int" where
  "cpu_after_cores config result =
     (if cpu_cores (system result) > 8 then 10
      else if cpu_cores (system result) < 4 then 2
      else max_cpu_percent config)"

definition four_tool_result :: tg_discovery_result where
  "four_tool_result =
     three_tool_result\<lparr>security_tools := active_tool ''fail2ban'' # three_tools,
                        security_tool_count := 4\<rparr>"


section \<open>Configuration (config.c)\<close>

text \<open>
  The cJSON library is not part of the sources; its items are modelled by their type
  and content. A number carries its \<open>valueint\<close>. \<open>cJSON_GetObjectItem\<close> returns the
  first member of an object whose name equals the key without regard to case.
\<close>

datatype cJSON =
    cJSON_NULL
  | cJSON_False
  | cJSON_True
  | cJSON_Number int
  | cJSON_String string
  | cJSON_Array "cJSON list"
  | cJSON_Object "(string \<times> cJSON) list"

definition tolower :: "char \<Rightarrow> char" where
  "tolower c =
     (case map_of (zip ''ABCDEFGHIJKLMNOPQRSTUVWXYZ'' ''abcdefghijklmnopqrstuvwxyz'') c of
        Some l \<Rightarrow> l
      | None \<Rightarrow> c)"

fun get_object_item :: "(string \<times> cJSON) list \<Rightarrow> string \<Rightarrow> cJSON option" where
  "get_object_item [] key = None"
| "get_object_item ((name, item) # members) key =
     (if map tolower name = map tolower key then Some item else get_object_item members key)"

definition cJSON_GetObjectItem :: "cJSON \<Rightarrow> string \<Rightarrow> cJSON option" where
  "cJSON_GetObjectItem object key =
     (case object of cJSON_Object members \<Rightarrow> get_object_item members key | _ \<Rightarrow> None)"

text \<open>
  \<open>struct tg_agent_config\<close> as config.c uses it (its declaration is not among the
  sources; the members are those of \<open>default_config\<close> and of the loaders). A member
  \<open>platform.host\<close> is the field \<open>platform_host\<close>, and so on. The log levels are the
  enumeration \<open>tg_log_level_t\<close> of threatguard.h, from \<open>TG_LOG_ERROR = 0\<close> to
  \<open>TG_LOG_TRACE = 4\<close>. Two things config.c relies on are declared in no source file and
  are the parameter \<open>tg_config_decls\<close>: the sizes of the character arrays, and the
  value of \<open>TG_LOG_FATAL\<close>.
\<close>

definition TG_LOG_ERROR :: int where "TG_LOG_ERROR = 0"
definition TG_LOG_WARN :: int where "TG_LOG_WARN = 1"
definition TG_LOG_INFO :: int where "TG_LOG_INFO = 2"
definition TG_LOG_DEBUG :: int where "TG_LOG_DEBUG = 3"
definition TG_LOG_TRACE :: int where "TG_LOG_TRACE = 4"

record tg_config =
  agent_id :: string
  platform_host :: string
  platform_port :: int
  platform_api_key :: string
  platform_batch_size :: int
  platform_timeout :: int
  platform_retry_limit :: int
  platform_compress :: int
  platform_tls_verify :: int
  discovery_enabled :: int
  discovery_interval_seconds :: int
  discovery_detect_organization :: int
  discovery_detect_compliance :: int
  discovery_include_network_info :: int
  security_enabled :: int
  security_rules_file :: string
  security_enable_threat_intel :: int
  security_enable_behavioral_analysis :: int
  security_drop_noise :: int
  logging_level :: int
  logging_file_path :: string
  logging_console_output :: int
  logging_max_file_size :: int
  logging_max_files :: int
  performance_max_memory_mb :: int
  performance_max_cpu_percent :: int
  performance_enable_profiling :: int
  config_file :: string

record tg_config_decls =
  sizeof_agent_id :: nat
  sizeof_host :: nat
  sizeof_api_key :: nat
  sizeof_rules_file :: nat
  sizeof_file_path :: nat
  sizeof_config_file :: nat
  TG_LOG_FATAL :: int

definition default_config :: tg_config where
  "default_config =
     \<lparr>agent_id = ''threatguard-agent'',
      platform_host = ''api.bg-threat.com'',
      platform_port = 443,
      platform_api_key = [],
      platform_batch_size = 1000,
      platform_timeout = 30,
      platform_retry_limit = 3,
      platform_compress = 1,
      platform_tls_verify = 1,
      discovery_enabled = 1,
      discovery_interval_seconds = 300,
      discovery_detect_organization = 1,
      discovery_detect_compliance = 1,
      discovery_include_network_info = 1,
      security_enabled = 1,
      security_rules_file = ''/etc/threatguard-agent/security-rules.conf'',
      security_enable_threat_intel = 1,
      security_enable_behavioral_analysis = 1,
      security_drop_noise = 1,
      logging_level = TG_LOG_INFO,
      logging_file_path = ''/var/log/threatguard-agent/agent.log'',
      logging_console_output = 0,
      logging_max_file_size = 10485760,
      logging_max_files = 5,
      performance_max_memory_mb = 256,
      performance_max_cpu_percent = 20,
      performance_enable_profiling = 0,
      config_file = []\<rparr>"

text \<open>
  \<open>item = cJSON_GetObjectItem(object, key)\<close> followed by a type test: the content of
  the item when \<open>cJSON_IsString\<close>, \<open>cJSON_IsNumber\<close>, \<open>cJSON_IsBool\<close> (read as
  \<open>cJSON_IsTrue(item) ? 1 : 0\<close>) or \<open>cJSON_IsObject\<close> holds of it, and \<open>None\<close> otherwise.
\<close>

definition string_item :: "cJSON \<Rightarrow> string \<Rightarrow> string option" where
  "string_item object key =
     (case cJSON_GetObjectItem object key of Some (cJSON_String s) \<Rightarrow> Some s | _ \<Rightarrow> None)"

definition number_item :: "cJSON \<Rightarrow> string \<Rightarrow> int option" where
  "number_item object key =
     (case cJSON_GetObjectItem object key of Some (cJSON_Number n) \<Rightarrow> Some n | _ \<Rightarrow> None)"

definition bool_item :: "cJSON \<Rightarrow> string \<Rightarrow> int option" where
  "bool_item object key =
     (case cJSON_GetObjectItem object key of
        Some cJSON_True \<Rightarrow> Some 1
      | Some cJSON_False \<Rightarrow> Some 0
      | _ \<Rightarrow> None)"

definition object_item :: "cJSON \<Rightarrow> string \<Rightarrow> cJSON option" where
  "object_item object key =
     (case cJSON_GetObjectItem object key of
        Some (cJSON_Object members) \<Rightarrow> Some (cJSON_Object members)
      | _ \<Rightarrow> None)"

text \<open>
  The shape of the loaders' statements: look the item up, test its type, store its
  content. The argument \<open>store\<close> is the assignment. In the loaders below the
  statements apply from the innermost outwards: the innermost is the first statement
  of the C function.
\<close>

definition load_string :: "cJSON \<Rightarrow> string \<Rightarrow> (string \<Rightarrow> tg_config \<Rightarrow> tg_config) \<Rightarrow> tg_config \<Rightarrow> tg_config" where
  "load_string object key store config =
     (case string_item object key of Some s \<Rightarrow> store s config | None \<Rightarrow> config)"

definition load_number :: "cJSON \<Rightarrow> string \<Rightarrow> (int \<Rightarrow> tg_config \<Rightarrow> tg_config) \<Rightarrow> tg_config \<Rightarrow> tg_config" where
  "load_number object key store config =
     (case number_item object key of Some n \<Rightarrow> store n config | None \<Rightarrow> config)"

definition load_bool :: "cJSON \<Rightarrow> string \<Rightarrow> (int \<Rightarrow> tg_config \<Rightarrow> tg_config) \<Rightarrow> tg_config \<Rightarrow> tg_config" where
  "load_bool object key store config =
     (case bool_item object key of Some b \<Rightarrow> store b config | None \<Rightarrow> config)"

text \<open>The chain of \<open>strcmp\<close> tests on a level name; \<open>None\<close> when none applies.\<close>

definition parse_log_level :: "tg_config_decls \<Rightarrow> string \<Rightarrow> int option" where
  "parse_log_level decls s =
     (if c_str s = ''trace'' then Some TG_LOG_TRACE
      else if c_str s = ''debug'' then Some TG_LOG_DEBUG
      else if c_str s = ''info'' then Some TG_LOG_INFO
      else if c_str s = ''warn'' then Some TG_LOG_WARN
      else if c_str s = ''error'' then Some TG_LOG_ERROR
      else if c_str s = ''fatal'' then Some (TG_LOG_FATAL decls)
      else None)"

definition store_log_level :: "tg_config_decls \<Rightarrow> string \<Rightarrow> tg_config \<Rightarrow> tg_config" where
  "store_log_level decls s config =
     (case parse_log_level decls s of Some l \<Rightarrow> config\<lparr>logging_level := l\<rparr> | None \<Rightarrow> config)"

definition tg_config_load_platform_json :: "tg_config_decls \<Rightarrow> cJSON \<Rightarrow> tg_config \<Rightarrow> tg_config" where
  "tg_config_load_platform_json decls platform config =
     (load_bool platform ''tls_verify'' (\<lambda>v c. c\<lparr>platform_tls_verify := v\<rparr>)
     (load_bool platform ''compress'' (\<lambda>v c. c\<lparr>platform_compress := v\<rparr>)
     (load_number platform ''retry_limit'' (\<lambda>v c. c\<lparr>platform_retry_limit := v\<rparr>)
     (load_number platform ''timeout'' (\<lambda>v c. c\<lparr>platform_timeout := v\<rparr>)
     (load_number platform ''batch_size'' (\<lambda>v c. c\<lparr>platform_batch_size := v\<rparr>)
     (load_string platform ''api_key''
        (\<lambda>v c. c\<lparr>platform_api_key := strncpy v (sizeof_api_key decls - 1)\<rparr>)
     (load_number platform ''port'' (\<lambda>v c. c\<lparr>platform_port := v\<rparr>)
     (load_string platform ''host''
        (\<lambda>v c. c\<lparr>platform_host := strncpy v (sizeof_host decls - 1)\<rparr>) config))))))))"

definition tg_config_load_discovery_json :: "cJSON \<Rightarrow> tg_config \<Rightarrow> tg_config" where
  "tg_config_load_discovery_json discovery config =
     (load_bool discovery ''include_network_info''
        (\<lambda>v c. c\<lparr>discovery_include_network_info := v\<rparr>)
     (load_bool discovery ''detect_compliance'' (\<lambda>v c. c\<lparr>discovery_detect_compliance := v\<rparr>)
     (load_bool discovery ''detect_organization''
        (\<lambda>v c. c\<lparr>discovery_detect_organization := v\<rparr>)
     (load_number discovery ''interval_seconds'' (\<lambda>v c. c\<lparr>discovery_interval_seconds := v\<rparr>)
     (load_bool discovery ''enabled'' (\<lambda>v c. c\<lparr>discovery_enabled := v\<rparr>) config)))))"

definition tg_config_load_security_json :: "tg_config_decls \<Rightarrow> cJSON \<Rightarrow> tg_config \<Rightarrow> tg_config" where
  "tg_config_load_security_json decls security config =
     (load_bool security ''drop_noise'' (\<lambda>v c. c\<lparr>security_drop_noise := v\<rparr>)
     (load_bool security ''enable_behavioral_analysis''
        (\<lambda>v c. c\<lparr>security_enable_behavioral_analysis := v\<rparr>)
     (load_bool security ''enable_threat_intel'' (\<lambda>v c. c\<lparr>security_enable_threat_intel := v\<rparr>)
     (load_string security ''rules_file''
        (\<lambda>v c. c\<lparr>security_rules_file := strncpy v (sizeof_rules_file decls - 1)\<rparr>)
     (load_bool security ''enabled'' (\<lambda>v c. c\<lparr>security_enabled := v\<rparr>) config)))))"

definition tg_config_load_logging_json :: "tg_config_decls \<Rightarrow> cJSON \<Rightarrow> tg_config \<Rightarrow> tg_config" where
  "tg_config_load_logging_json decls logging config =
     (load_number logging ''max_files'' (\<lambda>v c. c\<lparr>logging_max_files := v\<rparr>)
     (load_number logging ''max_file_size'' (\<lambda>v c. c\<lparr>logging_max_file_size := v\<rparr>)
     (load_bool logging ''console_output'' (\<lambda>v c. c\<lparr>logging_console_output := v\<rparr>)
     (load_string logging ''file_path''
        (\<lambda>v c. c\<lparr>logging_file_path := strncpy v (sizeof_file_path decls - 1)\<rparr>)
     (load_string logging ''level'' (store_log_level decls) config)))))"

definition tg_config_load_performance_json :: "cJSON \<Rightarrow> tg_config \<Rightarrow> tg_config" where
  "tg_config_load_performance_json performance config =
     (load_bool performance ''enable_profiling'' (\<lambda>v c. c\<lparr>performance_enable_profiling := v\<rparr>)
     (load_number performance ''max_cpu_percent'' (\<lambda>v c. c\<lparr>performance_max_cpu_percent := v\<rparr>)
     (load_number performance ''max_memory_mb'' (\<lambda>v c. c\<lparr>performance_max_memory_mb := v\<rparr>)
        config)))"

text \<open>
  \<open>section = cJSON_GetObjectItem(json, key); if (cJSON_IsObject(section)) load(section)\<close>
\<close>

definition load_section :: "cJSON \<Rightarrow> string \<Rightarrow> (cJSON \<Rightarrow> tg_config \<Rightarrow> tg_config) \<Rightarrow> tg_config \<Rightarrow> tg_config" where
  "load_section json key load config =
     (case object_item json key of Some section_object \<Rightarrow> load section_object config
      | None \<Rightarrow> config)"

definition tg_config_load_json :: "tg_config_decls \<Rightarrow> cJSON \<Rightarrow> tg_config \<Rightarrow> tg_config" where
  "tg_config_load_json decls json config =
     (load_section json ''performance'' tg_config_load_performance_json
     (load_section json ''logging'' (tg_config_load_logging_json decls)
     (load_section json ''security'' (tg_config_load_security_json decls)
     (load_section json ''discovery'' tg_config_load_discovery_json
     (load_section json ''platform'' (tg_config_load_platform_json decls)
     (load_string json ''agent_id''
        (\<lambda>v c. c\<lparr>agent_id := strncpy v (sizeof_agent_id decls - 1)\<rparr>) config))))))"

text \<open>
  \<open>tg_config_load_env_vars\<close>; the environment is what \<open>getenv\<close> answers.
\<close>

definition load_env :: "(string \<Rightarrow> string option) \<Rightarrow> string \<Rightarrow> (string \<Rightarrow> tg_config \<Rightarrow> tg_config) \<Rightarrow> tg_config \<Rightarrow> tg_config" where
  "load_env getenv var store config =
     (case getenv var of Some env_value \<Rightarrow> store env_value config | None \<Rightarrow> config)"

definition tg_config_load_env_vars :: "tg_config_decls \<Rightarrow> (string \<Rightarrow> string option) \<Rightarrow> tg_config \<Rightarrow> tg_config" where
  "tg_config_load_env_vars decls getenv config =
     (load_env getenv ''TG_CONSOLE_OUTPUT''
        (\<lambda>v c. c\<lparr>logging_console_output :=
                   (if c_str v = ''1'' \<or> c_str v = ''true'' then 1 else 0)\<rparr>)
     (load_env getenv ''TG_LOG_FILE''
        (\<lambda>v c. c\<lparr>logging_file_path := strncpy v (sizeof_file_path decls - 1)\<rparr>)
     (load_env getenv ''TG_LOG_LEVEL'' (store_log_level decls)
     (load_env getenv ''TG_API_KEY''
        (\<lambda>v c. c\<lparr>platform_api_key := strncpy v (sizeof_api_key decls - 1)\<rparr>)
     (load_env getenv ''TG_PLATFORM_PORT'' (\<lambda>v c. c\<lparr>platform_port := atoi v\<rparr>)
     (load_env getenv ''TG_PLATFORM_HOST''
        (\<lambda>v c. c\<lparr>platform_host := strncpy v (sizeof_host decls - 1)\<rparr>) config))))))"

text \<open>
  \<open>tg_config_validate\<close>: the return value and the configuration, which it may adjust.
  The test on the log level is \<open>level < TG_LOG_TRACE || level > TG_LOG_FATAL\<close>; with
  \<open>TG_LOG_TRACE = 4\<close> it lets through the levels from 4 to \<open>TG_LOG_FATAL\<close> and refuses the
  default \<open>TG_LOG_INFO\<close>.
\<close>

definition tg_config_validate :: "tg_config_decls \<Rightarrow> tg_config \<Rightarrow> int \<times> tg_config" where
  "tg_config_validate decls config =
     (if length (c_str (platform_host config)) = 0 then (- 1, config)
      else if platform_port config \<le> 0 \<or> platform_port config > 65535 then (- 1, config)
      else if platform_batch_size config \<le> 0 \<or> platform_batch_size config > 10000
      then (- 1, config)
      else
        (let c1 = (if discovery_interval_seconds config < 60
                   then config\<lparr>discovery_interval_seconds := 60\<rparr> else config)
         in if logging_level c1 < TG_LOG_TRACE \<or> logging_level c1 > TG_LOG_FATAL decls then (- 1, c1)
            else
              (let c2 = (if performance_max_memory_mb c1 < 64
                         then c1\<lparr>performance_max_memory_mb := 64\<rparr> else c1)
               in if performance_max_cpu_percent c2 < 5 \<or> performance_max_cpu_percent c2 > 100
                  then (- 1, c2)
                  else (0, c2))))"

text \<open>
  \<open>tg_config_init\<close>. \<open>g_config\<close> is the global, \<open>None\<close> while unset. The file argument is
  \<open>None\<close> when no path is given or the file does not exist, \<open>Some (path, None)\<close> when
  \<open>tg_config_load_file\<close> fails (the file cannot be read or parsed; the configuration
  is then untouched) and \<open>Some (path, Some json)\<close> when it parses. The result is the
  return value and the global afterwards.
\<close>

definition tg_config_init ::
  "tg_config_decls \<Rightarrow> (string \<Rightarrow> string option) \<Rightarrow> (string \<times> cJSON option) option
     \<Rightarrow> tg_config option \<Rightarrow> int \<times> tg_config option"
where
  "tg_config_init decls getenv file g_config =
     (case g_config of
        Some already \<Rightarrow> (0, Some already)
      | None \<Rightarrow>
          (let c1 = tg_config_load_env_vars decls getenv default_config;
               c2 = (case file of
                       None \<Rightarrow> c1
                     | Some (path, None) \<Rightarrow> c1
                     | Some (path, Some json) \<Rightarrow>
                         (tg_config_load_json decls json c1)
                           \<lparr>config_file := strncpy path (sizeof_config_file decls - 1)\<rparr>)
           in case tg_config_validate decls c2 of
                (validation_result, c3) \<Rightarrow>
                  if validation_result \<noteq> 0 then (- 1, None) else (0, Some c3)))"

subsection \<open>Precedence of the configuration sources\<close>

text \<open>
  What the file and the environment say about one key, for stating which source
  decides: the JSON that was loaded (if any), its section object, and the content of
  the item at \<open>section.key\<close> when it has the type the loader accepts.
\<close>

definition loaded_json :: "(string \<times> cJSON option) option \<Rightarrow> cJSON option" where
  "loaded_json file = (case file of Some (path, Some json) \<Rightarrow> Some json | _ \<Rightarrow> None)"

definition file_section :: "cJSON option \<Rightarrow> string \<Rightarrow> cJSON option" where
  "file_section json section_name =
     (case json of None \<Rightarrow> None | Some j \<Rightarrow> object_item j section_name)"

definition file_string :: "cJSON option \<Rightarrow> string \<Rightarrow> string \<Rightarrow> string option" where
  "file_string json section_name key =
     (case file_section json section_name of None \<Rightarrow> None | Some s \<Rightarrow> string_item s key)"

definition file_number :: "cJSON option \<Rightarrow> string \<Rightarrow> string \<Rightarrow> int option" where
  "file_number json section_name key =
     (case file_section json section_name of None \<Rightarrow> None | Some s \<Rightarrow> number_item s key)"

definition file_bool :: "cJSON option \<Rightarrow> string \<Rightarrow> string \<Rightarrow> int option" where
  "file_bool json section_name key =
     (case file_section json section_name of None \<Rightarrow> None | Some s \<Rightarrow> bool_item s key)"

definition env_console_output :: "string \<Rightarrow> int" where
  "env_console_output v = (if c_str v = ''1'' \<or> c_str v = ''true'' then 1 else 0)"

text \<open>The value in effect: the file's if it gives one, else the environment's, else the default.\<close>

definition file_then_env :: "'a option \<Rightarrow> 'a option \<Rightarrow> 'a \<Rightarrow> 'a" where
  "file_then_env from_file from_env dflt =
     (case from_file of
        Some v \<Rightarrow> v
      | None \<Rightarrow> (case from_env of Some v \<Rightarrow> v | None \<Rightarrow> dflt))"

text \<open>
  An environment and a configuration file that both set the platform host. The
  environment also sets the log level to \<open>trace\<close>, a level the validation lets through.
  The example takes array sizes of 64 and 256 bytes and \<open>TG_LOG_FATAL = 5\<close>.
\<close>

definition example_decls :: tg_config_decls where
  "example_decls =
     \<lparr>sizeof_agent_id = 64, sizeof_host = 256, sizeof_api_key = 256,
      sizeof_rules_file = 256, sizeof_file_path = 256, sizeof_config_file = 256,
      TG_LOG_FATAL = 5\<rparr>"

definition example_env :: "string \<Rightarrow> string option" where
  "example_env var =
     (if var = ''TG_PLATFORM_HOST'' then Some ''env.example.com''
      else if var = ''TG_LOG_LEVEL'' then Some ''trace''
      else None)"

definition example_json :: cJSON where
  "example_json =
     cJSON_Object [(''platform'', cJSON_Object [(''host'', cJSON_String ''file.example.com'')])]"

section \<open>Verified properties\<close>

subsection \<open>Records that are not maps\<close>

lemma apply_filter_non_map:
  "\<not> obj_is_map obj \<Longrightarrow>
   tg_security_apply_filter obj ctx now = (TG_SECURITY_ACTION_PASS, ctx)"
  by (cases obj) (simp_all add: tg_security_apply_filter_def obj_is_map_def)

lemma enrich_non_map:
  "\<not> obj_is_map obj \<Longrightarrow> tg_security_enrich_event obj now = [Packed obj]"
  by (cases obj)
    (simp_all add: tg_security_enrich_event_def obj_is_map_def msgpack_pack_object_def)

lemma filter_record_non_map:
  "\<not> obj_is_map obj \<Longrightarrow> tg_security_filter_record ctx obj now = ([Packed obj], ctx)"
  by (simp add: tg_security_filter_record_def apply_filter_non_map msgpack_pack_object_def)

lemma filter_non_maps:
  "list_all (\<lambda>r. \<not> obj_is_map r) recs \<Longrightarrow>
   tg_security_filter ctx recs now = (map Packed recs, ctx)"
  by (induction recs) (simp_all add: filter_record_non_map)

text \<open>
  C10. A record that is not a map (a string, an integer, an array, ...) resolves to
  the action pass without visiting any rule: the context, and with it every rule's
  match statistics, is unchanged. The filter emits exactly that record, which reads
  back as the same object; the enricher, were it called, would also emit it as it is.
\<close>

theorem non_map_record_passes_unchanged:
  assumes "\<not> obj_is_map obj"
  shows "tg_security_apply_filter obj ctx now = (TG_SECURITY_ACTION_PASS, ctx)
    \<and> tg_security_filter_record ctx obj now = (msgpack_pack_object obj, ctx)
    \<and> msgpack_unpack_next (fst (tg_security_filter_record ctx obj now)) = Some (obj, [])
    \<and> tg_security_enrich_event obj now = msgpack_pack_object obj"
  using assms
  by (simp add: apply_filter_non_map filter_record_non_map enrich_non_map
      msgpack_pack_object_def msgpack_unpack_next_def)

theorem non_map_record_passes_unchanged_witness:
  "\<not> obj_is_map (MSGPACK_OBJECT_STR ''plain text'')
   \<and> tg_security_apply_filter (MSGPACK_OBJECT_STR ''plain text'') \<lparr>rules = []\<rparr> 1700000000
       = (TG_SECURITY_ACTION_PASS, \<lparr>rules = []\<rparr>)
   \<and> tg_security_filter_record \<lparr>rules = []\<rparr> (MSGPACK_OBJECT_STR ''plain text'') 1700000000
       = ([Packed (MSGPACK_OBJECT_STR ''plain text'')], \<lparr>rules = []\<rparr>)"
proof -
  have h: "\<not> obj_is_map (MSGPACK_OBJECT_STR ''plain text'')"
    by (simp add: obj_is_map_def)
  show ?thesis
    using h non_map_record_passes_unchanged
      [OF h, of "\<lparr>rules = []\<rparr>" 1700000000]
    by (simp add: msgpack_pack_object_def)
qed

subsection \<open>Priority resolution\<close>

lemma fst_apply_rules_Cons:
  "fst (apply_rules now m (r # rs) a hp) =
     (if rule_enabled r \<noteq> 0 \<and> tg_security_rule_matches r m \<and> hp < rule_priority r
      then fst (apply_rules now m rs (rule_action r) (rule_priority r))
      else fst (apply_rules now m rs a hp))"
  by (simp split: prod.splits)

lemma matching_rules_Cons:
  "matching_rules (r # rs) m =
     (if rule_enabled r \<noteq> 0 \<and> tg_security_rule_matches r m then r # matching_rules rs m
      else matching_rules rs m)"
  by (simp add: matching_rules_def)

lemma apply_rules_no_higher:
  "list_all (\<lambda>r. rule_priority r \<le> hp) (matching_rules rs m) \<Longrightarrow>
   fst (apply_rules now m rs a hp) = a"
proof (induction rs arbitrary: a hp)
  case Nil
  then show ?case by simp
next
  case (Cons r rs)
  then show ?case
    by (auto simp add: fst_apply_rules_Cons matching_rules_Cons simp del: apply_rules.simps
        split: if_splits)
qed

lemma apply_rules_first_max:
  "list_ex (\<lambda>r. hp < rule_priority r) (matching_rules rs m) \<Longrightarrow>
   \<exists>pre r post. matching_rules rs m = pre @ r # post
      \<and> fst (apply_rules now m rs a hp) = rule_action r
      \<and> hp < rule_priority r
      \<and> list_all (\<lambda>x. rule_priority x < rule_priority r) pre
      \<and> list_all (\<lambda>x. rule_priority x \<le> rule_priority r) post"
proof (induction rs arbitrary: a hp)
  case Nil
  then show ?case by (simp add: matching_rules_def)
next
  case (Cons r rs)
  let ?M = "matching_rules rs m"
  show ?case
  proof (cases "rule_enabled r \<noteq> 0 \<and> tg_security_rule_matches r m")
    case False
    then have M: "matching_rules (r # rs) m = ?M"
      and F: "fst (apply_rules now m (r # rs) a hp) = fst (apply_rules now m rs a hp)"
      by (auto simp add: matching_rules_Cons fst_apply_rules_Cons simp del: apply_rules.simps)
    from Cons.prems M have "list_ex (\<lambda>r. hp < rule_priority r) ?M" by simp
    from Cons.IH [OF this, of a] show ?thesis unfolding M F .
  next
    case True
    then have M: "matching_rules (r # rs) m = r # ?M"
      by (simp add: matching_rules_Cons)
    show ?thesis
    proof (cases "hp < rule_priority r")
      case hi: True
      with True have F: "fst (apply_rules now m (r # rs) a hp)
          = fst (apply_rules now m rs (rule_action r) (rule_priority r))"
        by (simp add: fst_apply_rules_Cons del: apply_rules.simps)
      show ?thesis
      proof (cases "list_ex (\<lambda>x. rule_priority r < rule_priority x) ?M")
        case True
        from Cons.IH [OF True, of "rule_action r"]
        obtain pre r' post where
          *: "?M = pre @ r' # post"
          "fst (apply_rules now m rs (rule_action r) (rule_priority r)) = rule_action r'"
          "rule_priority r < rule_priority r'"
          "list_all (\<lambda>x. rule_priority x < rule_priority r') pre"
          "list_all (\<lambda>x. rule_priority x \<le> rule_priority r') post"
          by blast
        have "hp < rule_priority r'" using hi * by simp
        then show ?thesis
          by (rule_tac x = "r # pre" in exI, rule_tac x = r' in exI, rule_tac x = post in exI)
            (use M F * in simp)
      next
        case False
        then have le: "list_all (\<lambda>x. rule_priority x \<le> rule_priority r) ?M"
          by (auto simp: list_all_iff list_ex_iff not_less)
        from apply_rules_no_higher [OF le]
        have "fst (apply_rules now m (r # rs) a hp) = rule_action r"
          using F by simp
        then show ?thesis
          by (rule_tac x = "[]" in exI, rule_tac x = r in exI, rule_tac x = ?M in exI)
            (use M hi le in simp)
      qed
    next
      case lo: False
      with True have F: "fst (apply_rules now m (r # rs) a hp) = fst (apply_rules now m rs a hp)"
        by (simp add: fst_apply_rules_Cons del: apply_rules.simps)
      from Cons.prems M lo have "list_ex (\<lambda>r. hp < rule_priority r) ?M" by simp
      from Cons.IH [OF this, of a]
      obtain pre r' post where
        *: "?M = pre @ r' # post"
        "fst (apply_rules now m rs a hp) = rule_action r'"
        "hp < rule_priority r'"
        "list_all (\<lambda>x. rule_priority x < rule_priority r') pre"
        "list_all (\<lambda>x. rule_priority x \<le> rule_priority r') post"
        by blast
      have "rule_priority r < rule_priority r'" using lo * by simp
      then show ?thesis
        by (rule_tac x = "r # pre" in exI, rule_tac x = r' in exI, rule_tac x = post in exI)
          (use M F * in simp)
    qed
  qed
qed

lemma matching_rules_sub:
  "list_all P rs \<Longrightarrow> list_all P (matching_rules rs m)"
  by (simp add: matching_rules_def list_all_iff)

text \<open>
  C1, as the code has it. For every map event and every rule set whose priorities
  are not negative (the data model's range is 0 to 100): when no enabled rule
  matches, the action is pass; otherwise the action is that of an enabled matching
  rule \<open>r\<close> of highest priority, and among the enabled matching rules of that
  priority \<open>r\<close> is the one stored first: every enabled matching rule before it in
  the rule store has a strictly lower priority. The rule id plays no part.
\<close>

theorem first_highest_priority_match_decides:
  assumes "list_all (\<lambda>r. 0 \<le> rule_priority r) (rules ctx)"
  shows "(matching_rules (rules ctx) m = [] \<longrightarrow>
            fst (tg_security_apply_filter (MSGPACK_OBJECT_MAP m) ctx now) = TG_SECURITY_ACTION_PASS)
       \<and> (matching_rules (rules ctx) m \<noteq> [] \<longrightarrow>
            (\<exists>pre r post. matching_rules (rules ctx) m = pre @ r # post
               \<and> fst (tg_security_apply_filter (MSGPACK_OBJECT_MAP m) ctx now) = rule_action r
               \<and> list_all (\<lambda>x. rule_priority x < rule_priority r) pre
               \<and> list_all (\<lambda>x. rule_priority x \<le> rule_priority r) post))"
proof -
  let ?M = "matching_rules (rules ctx) m"
  have F: "fst (tg_security_apply_filter (MSGPACK_OBJECT_MAP m) ctx now)
      = fst (apply_rules now m (rules ctx) TG_SECURITY_ACTION_PASS (- 1))"
    by (simp add: tg_security_apply_filter_def split: prod.splits)
  have A: "?M = [] \<Longrightarrow> fst (apply_rules now m (rules ctx) TG_SECURITY_ACTION_PASS (- 1)) = TG_SECURITY_ACTION_PASS"
    by (rule apply_rules_no_higher) simp
  have nonneg: "list_all (\<lambda>r. 0 \<le> rule_priority r) ?M"
    using assms by (rule matching_rules_sub)
  have B: "?M \<noteq> [] \<Longrightarrow> list_ex (\<lambda>r. - 1 < rule_priority r) ?M"
    using nonneg by (cases ?M) (auto)
  show ?thesis
    using A apply_rules_first_max [OF B, of now TG_SECURITY_ACTION_PASS] unfolding F
    by blast
qed

theorem first_highest_priority_match_decides_witness:
  "list_all (\<lambda>r. 0 \<le> rule_priority r) (rules tie_ctx)
   \<and> matching_rules (rules tie_ctx) login_event \<noteq> []
   \<and> (\<exists>pre r post. matching_rules (rules tie_ctx) login_event = pre @ r # post
         \<and> fst (tg_security_apply_filter (MSGPACK_OBJECT_MAP login_event) tie_ctx 1700000000)
             = rule_action r
         \<and> list_all (\<lambda>x. rule_priority x < rule_priority r) pre
         \<and> list_all (\<lambda>x. rule_priority x \<le> rule_priority r) post)"
proof -
  have h: "list_all (\<lambda>r. 0 \<le> rule_priority r) (rules tie_ctx)"
    by (simp add: tie_ctx_def tie_rule_first_def tie_rule_second_def)
  have n: "matching_rules (rules tie_ctx) login_event \<noteq> []"
    by (simp add: matching_rules_def tie_ctx_def tie_rule_first_def tie_rule_second_def
        login_event_def tg_security_rule_matches_def TG_RULE_TYPE_FIELD_MATCH_def
        TG_RULE_TYPE_FIELD_REGEX_def TG_RULE_TYPE_FIELD_EXISTS_def
        tg_security_check_field_exists_def key_equals_def c_str_def NUL_def)
  show ?thesis
    using h n first_highest_priority_match_decides [OF h, of login_event 1700000000]
    by blast
qed

text \<open>
  The claim as the specification states it fails on a tie: both rules of \<open>tie_ctx\<close>
  match the login event with priority 50; the code takes the action of the rule
  stored first (id 7, flag), the specification's rule picks the lowest id (id 3, drop).
\<close>

theorem tie_goes_to_store_order_not_lowest_id:
  "fst (tg_security_apply_filter (MSGPACK_OBJECT_MAP login_event) tie_ctx 1700000000)
     = TG_SECURITY_ACTION_FLAG
   \<and> spec_chosen_action (rules tie_ctx) login_event = TG_SECURITY_ACTION_DROP
   \<and> TG_SECURITY_ACTION_FLAG \<noteq> TG_SECURITY_ACTION_DROP"
  by (simp add: tg_security_apply_filter_def spec_chosen_action_def matching_rules_def
      spec_preferred_def tie_ctx_def tie_rule_first_def tie_rule_second_def login_event_def
      tg_security_rule_matches_def TG_RULE_TYPE_FIELD_MATCH_def TG_RULE_TYPE_FIELD_REGEX_def
      TG_RULE_TYPE_FIELD_EXISTS_def tg_security_check_field_exists_def key_equals_def
      c_str_def NUL_def TG_SECURITY_ACTION_PASS_def TG_SECURITY_ACTION_FLAG_def
      TG_SECURITY_ACTION_DROP_def TG_COMPLIANCE_NONE_def)

subsection \<open>What the enricher emits\<close>

lemma unpack_map_frame:
  "length xs = k \<Longrightarrow> 0 < k \<Longrightarrow>
   unpack_items [Map_frame k acc] (map Packed xs @ rest)
     = Some (MSGPACK_OBJECT_MAP (pair_up (rev acc @ xs)), rest)"
proof (induction xs arbitrary: k acc)
  case Nil
  then show ?case by simp
next
  case (Cons x xs)
  show ?case
  proof (cases "k \<le> 1")
    case True
    with Cons.prems have "xs = []" by auto
    with True show ?thesis by simp
  next
    case False
    with Cons.prems have "length xs = k - 1" "0 < k - 1" by simp_all
    from Cons.IH [OF this, of "x # acc"] False show ?thesis by simp
  qed
qed

lemma unpack_map:
  "length xs = 2 * n \<Longrightarrow>
   msgpack_unpack_next (Map_header n # map Packed xs @ rest)
     = Some (MSGPACK_OBJECT_MAP (pair_up xs), rest)"
  using unpack_map_frame [of xs "2 * n" "[]" rest]
  by (cases "n = 0") (simp_all add: msgpack_unpack_next_def)


lemma pack_entries:
  "concat (map (\<lambda>(key, val). msgpack_pack_object key @ msgpack_pack_object val) m)
     = map Packed (flatten_entries m)"
  by (induction m) (auto simp: msgpack_pack_object_def)

lemma length_flatten_entries: "length (flatten_entries m) = 2 * length m"
  by (induction m) auto

lemma pair_up_flatten: "pair_up (flatten_entries m @ ys) = m @ pair_up ys"
  by (induction m) auto


lemma enrich_map_items:
  "tg_security_enrich_event (MSGPACK_OBJECT_MAP m) now
     = Map_header ((length m + 4) mod 2 ^ 32) # map Packed (flatten_entries m @ enrichment_items now)"
  by (simp add: tg_security_enrich_event_def pack_entries msgpack_pack_map_def
      msgpack_pack_str_body_def msgpack_pack_uint64_def msgpack_pack_int_def c_literal_def
      TG_AGENT_NAME_def c_str_def NUL_def enrichment_items_def)

lemma enriched_event_map:
  assumes "length m + 4 < 2 ^ 32"
  shows "msgpack_unpack_next (tg_security_enrich_event (MSGPACK_OBJECT_MAP m) now)
     = Some (MSGPACK_OBJECT_MAP (m @ pair_up (enrichment_items now)), [])"
proof -
  have "length (flatten_entries m @ enrichment_items now) = 2 * ((length m + 4) mod 2 ^ 32)"
    using assms by (simp add: length_flatten_entries enrichment_items_def)
  from unpack_map [OF this, of "[]"] show ?thesis
    by (simp add: enrich_map_items pair_up_flatten)
qed


lemma pair_up_enrichment_items:
  "pair_up (enrichment_items now) =
     [(MSGPACK_OBJECT_STR ''tg_security_tag'', MSGPACK_OBJECT_STR (''flagged'' @ [NUL])),
      (MSGPACK_OBJECT_STR (''tg_detection_time'' @ [NUL]),
       MSGPACK_OBJECT_POSITIVE_INTEGER (nat (now mod 2 ^ 64))),
      (MSGPACK_OBJECT_STR (''tg_threat_score'' @ [NUL]), MSGPACK_OBJECT_POSITIVE_INTEGER 75),
      (MSGPACK_OBJECT_STR (''tg_agent_id'' @ [NUL]), MSGPACK_OBJECT_STR ''threatguard-agent'')]"
  by (simp add: enrichment_items_def)

lemma filter_record_enriches:
  assumes "fst (tg_security_apply_filter obj ctx now) = TG_SECURITY_ACTION_FLAG
         \<or> fst (tg_security_apply_filter obj ctx now) = TG_SECURITY_ACTION_ENRICH"
  shows "fst (tg_security_filter_record ctx obj now) = tg_security_enrich_event obj now"
  using assms
  by (auto simp: tg_security_filter_record_def TG_SECURITY_ACTION_PASS_def
      TG_SECURITY_ACTION_FLAG_def TG_SECURITY_ACTION_DROP_def TG_SECURITY_ACTION_ENRICH_def
      split: prod.splits)

text \<open>
  C3, as the code has it. For every map event whose resolved action is flag or
  enrich (and whose entry count leaves room for four more in the 32-bit header), what
  the filter emits reads back as one map: the entries of the input event in their
  order, followed by exactly four entries whose keys read, as C strings,
  \<open>tg_security_tag\<close>, \<open>tg_detection_time\<close>, \<open>tg_threat_score\<close> and \<open>tg_agent_id\<close>.
  Their values are a string reading \<open>flagged\<close>, the clock reading in seconds as an
  unsigned 64-bit integer, the constant 75, and the agent name. The score does not
  depend on the rule that matched.
\<close>

theorem flagged_event_gets_four_fields:
  assumes act: "fst (tg_security_apply_filter (MSGPACK_OBJECT_MAP m) ctx now) = TG_SECURITY_ACTION_FLAG
              \<or> fst (tg_security_apply_filter (MSGPACK_OBJECT_MAP m) ctx now) = TG_SECURITY_ACTION_ENRICH"
    and size: "length m + 4 < 2 ^ 32"
  shows "\<exists>k1 v1 k2 k3 k4.
      msgpack_unpack_next (fst (tg_security_filter_record ctx (MSGPACK_OBJECT_MAP m) now))
        = Some (MSGPACK_OBJECT_MAP
                 (m @ [(MSGPACK_OBJECT_STR k1, MSGPACK_OBJECT_STR v1),
                       (MSGPACK_OBJECT_STR k2, MSGPACK_OBJECT_POSITIVE_INTEGER (nat (now mod 2 ^ 64))),
                       (MSGPACK_OBJECT_STR k3, MSGPACK_OBJECT_POSITIVE_INTEGER 75),
                       (MSGPACK_OBJECT_STR k4, MSGPACK_OBJECT_STR TG_AGENT_NAME)]), [])
      \<and> c_str k1 = ''tg_security_tag'' \<and> c_str v1 = ''flagged''
      \<and> c_str k2 = ''tg_detection_time'' \<and> c_str k3 = ''tg_threat_score''
      \<and> c_str k4 = ''tg_agent_id''"
proof -
  have "msgpack_unpack_next (fst (tg_security_filter_record ctx (MSGPACK_OBJECT_MAP m) now))
      = Some (MSGPACK_OBJECT_MAP (m @ pair_up (enrichment_items now)), [])"
    using filter_record_enriches [OF act] enriched_event_map [OF size] by simp
  then show ?thesis
    unfolding pair_up_enrichment_items
    by (rule_tac x = "''tg_security_tag''" in exI, rule_tac x = "''flagged'' @ [NUL]" in exI,
        rule_tac x = "''tg_detection_time'' @ [NUL]" in exI,
        rule_tac x = "''tg_threat_score'' @ [NUL]" in exI,
        rule_tac x = "''tg_agent_id'' @ [NUL]" in exI)
      (simp add: c_str_def NUL_def TG_AGENT_NAME_def)
qed

theorem flagged_event_gets_four_fields_witness:
  "(fst (tg_security_apply_filter (MSGPACK_OBJECT_MAP login_event) tie_ctx 1700000000) = TG_SECURITY_ACTION_FLAG
     \<or> fst (tg_security_apply_filter (MSGPACK_OBJECT_MAP login_event) tie_ctx 1700000000) = TG_SECURITY_ACTION_ENRICH)
   \<and> length login_event + 4 < (2::nat) ^ 32
   \<and> (\<exists>k1 v1 k2 k3 k4.
      msgpack_unpack_next (fst (tg_security_filter_record tie_ctx (MSGPACK_OBJECT_MAP login_event) 1700000000))
        = Some (MSGPACK_OBJECT_MAP
                 (login_event @ [(MSGPACK_OBJECT_STR k1, MSGPACK_OBJECT_STR v1),
                       (MSGPACK_OBJECT_STR k2, MSGPACK_OBJECT_POSITIVE_INTEGER (nat (1700000000 mod 2 ^ 64))),
                       (MSGPACK_OBJECT_STR k3, MSGPACK_OBJECT_POSITIVE_INTEGER 75),
                       (MSGPACK_OBJECT_STR k4, MSGPACK_OBJECT_STR TG_AGENT_NAME)]), [])
      \<and> c_str k1 = ''tg_security_tag'' \<and> c_str v1 = ''flagged''
      \<and> c_str k2 = ''tg_detection_time'' \<and> c_str k3 = ''tg_threat_score''
      \<and> c_str k4 = ''tg_agent_id'')"
proof -
  have a: "fst (tg_security_apply_filter (MSGPACK_OBJECT_MAP login_event) tie_ctx 1700000000) = TG_SECURITY_ACTION_FLAG
     \<or> fst (tg_security_apply_filter (MSGPACK_OBJECT_MAP login_event) tie_ctx 1700000000) = TG_SECURITY_ACTION_ENRICH"
    by (simp add: tg_security_filter_record_def tg_security_apply_filter_def tie_ctx_def
        critical_ctx_def critical_rule_def tie_rule_first_def tie_rule_second_def
        login_event_def tg_security_rule_matches_def TG_RULE_TYPE_FIELD_MATCH_def
        TG_RULE_TYPE_FIELD_REGEX_def TG_RULE_TYPE_FIELD_EXISTS_def
        tg_security_check_field_exists_def key_equals_def c_str_def NUL_def
        TG_SECURITY_ACTION_PASS_def TG_SECURITY_ACTION_FLAG_def TG_SECURITY_ACTION_DROP_def
        TG_SECURITY_ACTION_ENRICH_def TG_COMPLIANCE_NONE_def)
  have b: "length login_event + 4 < (2::nat) ^ 32"
    by (simp add: login_event_def)
  show ?thesis
    using a b flagged_event_gets_four_fields [OF a b] by blast
qed

text \<open>
  The claim as stated fails: the same login event, flagged once by rules of priority
  50 and once by a rule of priority 100, is emitted identically, with threat score 75
  in both cases.
\<close>

theorem threat_score_ignores_priority:
  "map rule_priority (matching_rules (rules tie_ctx) login_event) = [50, 50]
   \<and> map rule_priority (matching_rules (rules critical_ctx) login_event) = [100]
   \<and> msgpack_unpack_next
        (fst (tg_security_filter_record tie_ctx (MSGPACK_OBJECT_MAP login_event) 1700000000))
      = Some (MSGPACK_OBJECT_MAP
          [(MSGPACK_OBJECT_STR ''user'', MSGPACK_OBJECT_STR ''root''),
           (MSGPACK_OBJECT_STR ''tg_security_tag'', MSGPACK_OBJECT_STR (''flagged'' @ [NUL])),
           (MSGPACK_OBJECT_STR (''tg_detection_time'' @ [NUL]),
            MSGPACK_OBJECT_POSITIVE_INTEGER 1700000000),
           (MSGPACK_OBJECT_STR (''tg_threat_score'' @ [NUL]), MSGPACK_OBJECT_POSITIVE_INTEGER 75),
           (MSGPACK_OBJECT_STR (''tg_agent_id'' @ [NUL]), MSGPACK_OBJECT_STR ''threatguard-agent'')],
          [])
   \<and> fst (tg_security_filter_record critical_ctx (MSGPACK_OBJECT_MAP login_event) 1700000000)
      = fst (tg_security_filter_record tie_ctx (MSGPACK_OBJECT_MAP login_event) 1700000000)"
  by (simp add: tg_security_filter_record_def tg_security_apply_filter_def tie_ctx_def
        critical_ctx_def critical_rule_def tie_rule_first_def tie_rule_second_def
        login_event_def tg_security_rule_matches_def TG_RULE_TYPE_FIELD_MATCH_def
        TG_RULE_TYPE_FIELD_REGEX_def TG_RULE_TYPE_FIELD_EXISTS_def
        tg_security_check_field_exists_def key_equals_def c_str_def NUL_def
        TG_SECURITY_ACTION_PASS_def TG_SECURITY_ACTION_FLAG_def TG_SECURITY_ACTION_DROP_def
        TG_SECURITY_ACTION_ENRICH_def TG_COMPLIANCE_NONE_def matching_rules_def tg_security_enrich_event_def msgpack_pack_map_def
      msgpack_pack_object_def msgpack_pack_str_body_def msgpack_pack_uint64_def
      msgpack_pack_int_def c_literal_def TG_AGENT_NAME_def msgpack_unpack_next_def)

subsection \<open>Enriching twice\<close>

lemma field_values_append:
  "field_values name (a @ b) = field_values name a @ field_values name b"
  by (simp add: field_values_def)

lemma tag_of_enrichment_items:
  "field_values ''tg_security_tag'' (pair_up (enrichment_items now))
     = [MSGPACK_OBJECT_STR (''flagged'' @ [NUL])]"
  by (simp add: field_values_def enrichment_items_def key_equals_def c_str_def NUL_def)

text \<open>
  C8, as the code has it. The enricher appends its four entries unconditionally. For
  every map event \<open>m\<close>, the once-enriched event \<open>m1\<close> carries the \<open>tg_security_tag\<close>
  entries of \<open>m\<close> and one more; enriching \<open>m1\<close> again gives \<open>m2\<close>, which begins with
  the entries of \<open>m1\<close> unchanged and carries one further \<open>tg_security_tag\<close> entry with
  the same value. The value is stable, but the field is no longer single.
\<close>

theorem second_enrichment_repeats_tag:
  assumes "length m + 8 < 2 ^ 32"
  shows "\<exists>m1 m2 v.
      enriched_event (MSGPACK_OBJECT_MAP m) t1 = Some (MSGPACK_OBJECT_MAP m1)
      \<and> enriched_twice (MSGPACK_OBJECT_MAP m) t1 t2 = Some (MSGPACK_OBJECT_MAP m2)
      \<and> c_str v = ''flagged''
      \<and> field_values ''tg_security_tag'' m1
          = field_values ''tg_security_tag'' m @ [MSGPACK_OBJECT_STR v]
      \<and> field_values ''tg_security_tag'' m2
          = field_values ''tg_security_tag'' m1 @ [MSGPACK_OBJECT_STR v]
      \<and> take (length m1) m2 = m1"
proof -
  let ?m1 = "m @ pair_up (enrichment_items t1)"
  let ?m2 = "?m1 @ pair_up (enrichment_items t2)"
  have s1: "length m + 4 < 2 ^ 32" using assms by simp
  have s2: "length ?m1 + 4 < 2 ^ 32" using assms by (simp add: enrichment_items_def)
  have e1: "enriched_event (MSGPACK_OBJECT_MAP m) t1 = Some (MSGPACK_OBJECT_MAP ?m1)"
    by (simp add: enriched_event_def enriched_event_map [OF s1])
  have e2: "enriched_twice (MSGPACK_OBJECT_MAP m) t1 t2 = Some (MSGPACK_OBJECT_MAP ?m2)"
    by (simp add: enriched_twice_def e1) (simp add: enriched_event_def enriched_event_map [OF s2])
  show ?thesis
    by (rule_tac x = ?m1 in exI, rule_tac x = ?m2 in exI,
        rule_tac x = "''flagged'' @ [NUL]" in exI)
      (simp add: e1 e2 field_values_append tag_of_enrichment_items c_str_def NUL_def)
qed

theorem second_enrichment_repeats_tag_witness:
  "length login_event + 8 < (2::nat) ^ 32
   \<and> (\<exists>m1 m2 v.
      enriched_event (MSGPACK_OBJECT_MAP login_event) 1700000000 = Some (MSGPACK_OBJECT_MAP m1)
      \<and> enriched_twice (MSGPACK_OBJECT_MAP login_event) 1700000000 1700000060 = Some (MSGPACK_OBJECT_MAP m2)
      \<and> c_str v = ''flagged''
      \<and> field_values ''tg_security_tag'' m1
          = field_values ''tg_security_tag'' login_event @ [MSGPACK_OBJECT_STR v]
      \<and> field_values ''tg_security_tag'' m2
          = field_values ''tg_security_tag'' m1 @ [MSGPACK_OBJECT_STR v]
      \<and> take (length m1) m2 = m1)"
proof -
  have b: "length login_event + 8 < (2::nat) ^ 32"
    by (simp add: login_event_def)
  show ?thesis
    using b second_enrichment_repeats_tag [OF b] by blast
qed

text \<open>
  The claim as stated fails: after the second pass the login event has two
  \<open>tg_security_tag\<close> entries.
\<close>

theorem second_enrichment_two_tags:
  "map_option (obj_field_values ''tg_security_tag'')
      (enriched_twice (MSGPACK_OBJECT_MAP login_event) 1700000000 1700000060)
     = Some [MSGPACK_OBJECT_STR (''flagged'' @ [NUL]), MSGPACK_OBJECT_STR (''flagged'' @ [NUL])]
   \<and> map_option (\<lambda>e. length (obj_field_values ''tg_security_tag'' e))
      (enriched_twice (MSGPACK_OBJECT_MAP login_event) 1700000000 1700000060) = Some 2"
  by (simp add: enriched_twice_def enriched_event_def obj_field_values_def field_values_def
      login_event_def key_equals_def c_str_def NUL_def
      tg_security_enrich_event_def msgpack_pack_map_def
      msgpack_pack_object_def msgpack_pack_str_body_def msgpack_pack_uint64_def
      msgpack_pack_int_def c_literal_def TG_AGENT_NAME_def msgpack_unpack_next_def)

subsection \<open>Egress: a failed batch, and the array header of a batch\<close>

lemma initial_platform_ctx:
  "tg_platform_init output_properties True
     = Some \<lparr>batch_size = 0, retry_limit = 0, compress = 0,
             current_retry_count = 0, batch_buffer = [], batch_count = 0,
             batch_start_time = 0, batch_max_wait_time = 30,
             events_sent = 0, events_failed = 0, batches_sent = 0,
             connection_errors = 0, http_errors = 0,
             last_success = 0, last_error = 0, consecutive_failures = 0\<rparr>"
  by (simp add: tg_platform_init_def output_properties_def)

text \<open>
  A batch that has just been started holds the array header for \<open>batch_size\<close> elements
  and the one event, whatever the context holds otherwise.
\<close>

lemma new_batch_header:
  "batch_count ctx = 0 \<Longrightarrow>
     batch_buffer (snd (tg_platform_add_to_batch ctx event now))
       = msgpack_pack_array (nat (batch_size ctx mod 2 ^ 64)) @ msgpack_pack_object event
     \<and> batch_count (snd (tg_platform_add_to_batch ctx event now)) = 1"
  by (simp add: tg_platform_add_to_batch_def Let_def)

text \<open>
  C2 on the code. The output is initialised from an instance configured with
  \<open>retry_limit = 3\<close>; the context it runs on has \<open>retry_limit = 0\<close> and \<open>batch_size = 0\<close>, so
  every event is flushed as soon as it is appended. With one event and the responses
  500, 500, 202: the batch is transmitted once, meets the first 500, and is dropped at
  once. \<open>http_errors\<close> and \<open>consecutive_failures\<close> are 1, the event is counted in
  \<open>events_failed\<close>, \<open>events_sent\<close> stays 0, and the responses 500 and 202 are never
  asked for. With a second event one second later, the next flush transmits the second
  event alone and meets the second 500: the first event is not sent again, both events
  are counted as failed, \<open>consecutive_failures\<close> is 2 and the response 202 is never asked
  for. No retry count is kept: \<open>current_retry_count\<close> stays 0.
\<close>

theorem failed_batch_is_not_retried:
  "map_option
      (\<lambda>ctx. tg_platform_flush ctx [(1700000000, event_a)]
                [Http_status 500, Http_status 500, Http_status 202])
      (tg_platform_init output_properties True)
   = Some
       (\<lparr>batch_size = 0, retry_limit = 0, compress = 0,
         current_retry_count = 0, batch_buffer = [], batch_count = 0,
         batch_start_time = 0, batch_max_wait_time = 30,
         events_sent = 0, events_failed = 1, batches_sent = 0,
         connection_errors = 0, http_errors = 1,
         last_success = 0, last_error = 1700000000, consecutive_failures = 1\<rparr>,
        [Http_status 500, Http_status 202],
        [\<lparr>body = [Array_header 0, Packed event_a], content_encoding_gzip = False,
          batch_size_header = 1\<rparr>])
   \<and> map_option
      (\<lambda>ctx. tg_platform_flush ctx [(1700000000, event_a), (1700000001, event_b)]
                [Http_status 500, Http_status 500, Http_status 202])
      (tg_platform_init output_properties True)
   = Some
       (\<lparr>batch_size = 0, retry_limit = 0, compress = 0,
         current_retry_count = 0, batch_buffer = [], batch_count = 0,
         batch_start_time = 0, batch_max_wait_time = 30,
         events_sent = 0, events_failed = 2, batches_sent = 0,
         connection_errors = 0, http_errors = 2,
         last_success = 0, last_error = 1700000001, consecutive_failures = 2\<rparr>,
        [Http_status 202],
        [\<lparr>body = [Array_header 0, Packed event_a], content_encoding_gzip = False,
          batch_size_header = 1\<rparr>,
         \<lparr>body = [Array_header 0, Packed event_b], content_encoding_gzip = False,
          batch_size_header = 1\<rparr>])"
  by (simp add: initial_platform_ctx tg_platform_add_to_batch_def
      tg_platform_should_flush_batch_def tg_platform_flush_batch_def flush_due_batch_def
      tg_platform_reset_batch_def next_outcome_def batch_request_def record_failure_def
      msgpack_pack_array_def msgpack_pack_object_def Let_def)

text \<open>
  C7 on the code. The array header is written when a batch is started and declares
  \<open>batch_size\<close> elements; the context the output runs on has \<open>batch_size = 0\<close>. Two events
  arriving one second apart are flushed one by one, in the order they arrived. Each
  body is an array header declaring 0 elements followed by the one event appended,
  while the \<open>X-ThreatGuard-Batch-Size\<close> header of the same request says 1: a reader of
  the body gets the empty array and is left with the event behind it.
\<close>

theorem batch_header_declares_batch_size:
  "map_option
      (\<lambda>ctx. tg_platform_flush ctx [(1700000000, event_a), (1700000001, event_b)]
                [Http_status 202, Http_status 202])
      (tg_platform_init output_properties True)
   = Some
       (\<lparr>batch_size = 0, retry_limit = 0, compress = 0,
         current_retry_count = 0, batch_buffer = [], batch_count = 0,
         batch_start_time = 0, batch_max_wait_time = 30,
         events_sent = 2, events_failed = 0, batches_sent = 2,
         connection_errors = 0, http_errors = 0,
         last_success = 1700000001, last_error = 0, consecutive_failures = 0\<rparr>,
        [],
        [\<lparr>body = [Array_header 0, Packed event_a], content_encoding_gzip = False,
          batch_size_header = 1\<rparr>,
         \<lparr>body = [Array_header 0, Packed event_b], content_encoding_gzip = False,
          batch_size_header = 1\<rparr>])
   \<and> msgpack_unpack_next [Array_header 0, Packed event_a]
     = Some (MSGPACK_OBJECT_ARRAY [], [Packed event_a])
   \<and> msgpack_unpack_next [Array_header 0, Packed event_b]
     = Some (MSGPACK_OBJECT_ARRAY [], [Packed event_b])"
  by (simp add: initial_platform_ctx tg_platform_add_to_batch_def
      tg_platform_should_flush_batch_def tg_platform_flush_batch_def flush_due_batch_def
      tg_platform_reset_batch_def next_outcome_def batch_request_def record_failure_def
      msgpack_pack_array_def msgpack_pack_object_def Let_def msgpack_unpack_next_def)

subsection \<open>Rules file: lines with too few fields\<close>

lemma short_line_skipped:
  "length (rule_line_tokens line) < 6 \<Longrightarrow> load_rule_line ctx n line now = Inr (ctx, n)"
  by (simp add: load_rule_line_def Let_def split: list.splits)

text \<open>
  C4 on the code. The parser enters the accepting branch on \<open>token_count >= 6\<close>. A line
  with five fields is skipped and changes neither the rules nor the count, and a line
  with seven fields adds its rule with the newline trimmed from the pattern. A line
  with six fields is not skipped: it is tokenised into six tokens, the accepting
  branch is taken, and the pattern is read from \<open>tokens[6]\<close>, which was never assigned.
\<close>

theorem six_field_line_is_not_skipped:
  "rule_line_tokens line_six_fields
     = [''12'', ''brute force'', ''2'', ''90'', ''1'', ''message'' @ [CHR 0x0A]]
   \<and> load_rule_line \<lparr>rules = []\<rparr> 0 line_six_fields 1700000000
     = Inl (Uninitialised_token_read 6)
   \<and> tg_security_load_rules_file \<lparr>rules = []\<rparr> (Some [line_six_fields]) 1700000000
     = Inl (Uninitialised_token_read 6)
   \<and> load_rule_line \<lparr>rules = []\<rparr> 0 line_five_fields 1700000000 = Inr (\<lparr>rules = []\<rparr>, 0)
   \<and> load_rule_line \<lparr>rules = []\<rparr> 0 line_seven_fields 1700000000
     = Inr (\<lparr>rules =
          [\<lparr>rule_id = 12, rule_name = ''brute force'', rule_description = [],
            rule_type = 2, rule_priority = 90, rule_action = 1, rule_enabled = 1,
            rule_field_name = ''message'', rule_pattern = ''failed login'',
            rule_compliance_type = 0, rule_match_count = 0, rule_last_match = 0,
            rule_created = 1700000000\<rparr>]\<rparr>, 1)"
  by (simp add: load_rule_line_def rule_line_tokens_def strtok_tokens_def c_str_def NUL_def
      token_at_def line_five_fields_def line_six_fields_def line_seven_fields_def Let_def
      tg_security_add_rule_def rule_count_def atoi_def strtol10_def isspace_def isdigit_def
      strncpy_def TG_COMPLIANCE_NONE_def tg_security_load_rules_file_def)

subsection \<open>Adaptive configuration: the rule on security tools\<close>

lemma max_cpu_steps:
  "max_cpu_percent (adjust_for_memory result config) = max_cpu_percent config"
  "max_cpu_percent (adjust_for_cores result config) = cpu_after_cores config result"
  "max_cpu_percent (adjust_for_security_tools result config)
     = (if security_tool_count result > 3 then max 1 (max_cpu_percent config - 1)
        else max_cpu_percent config)"
  "max_cpu_percent (adjust_for_pci_dss result config) = max_cpu_percent config"
  "max_cpu_percent (adjust_for_hipaa result config) = max_cpu_percent config"
  "max_cpu_percent (adjust_for_sox result config) = max_cpu_percent config"
  by (simp_all add: adjust_for_memory_def adjust_for_cores_def adjust_for_security_tools_def
      adjust_for_pci_dss_def adjust_for_hipaa_def adjust_for_sox_def cpu_after_cores_def)

lemma cpu_after_cores_memory:
  "cpu_after_cores (adjust_for_memory result config) result = cpu_after_cores config result"
  by (simp add: cpu_after_cores_def max_cpu_steps)

lemma collection_interval_steps:
  "collection_interval (adjust_for_memory result config) = collection_interval config"
  "collection_interval (adjust_for_cores result config) = collection_interval config"
  "collection_interval (adjust_for_security_tools result config)
     = (if security_tool_count result > 3 then 120 else collection_interval config)"
  "collection_interval (adjust_for_pci_dss result config)
     = (if compliance_requirements (organization result) AND TG_COMPLIANCE_PCI_DSS \<noteq> 0
        then 30 else collection_interval config)"
  "collection_interval (adjust_for_hipaa result config) = collection_interval config"
  "collection_interval (adjust_for_sox result config) = collection_interval config"
  by (simp_all add: adjust_for_memory_def adjust_for_cores_def adjust_for_security_tools_def
      adjust_for_pci_dss_def adjust_for_hipaa_def adjust_for_sox_def)

lemma generated_max_cpu:
  "max_cpu_percent (snd (tg_discovery_generate_config gen config result now))
     = (if security_tool_count result > 3 then max 1 (cpu_after_cores config result - 1)
        else cpu_after_cores config result)"
  by (simp add: tg_discovery_generate_config_def Let_def max_cpu_steps cpu_after_cores_memory)

lemma generated_interval:
  "collection_interval (snd (tg_discovery_generate_config gen config result now))
     = (if compliance_requirements (organization result) AND TG_COMPLIANCE_PCI_DSS \<noteq> 0 then 30
        else if security_tool_count result > 3 then 120
        else collection_interval config)"
  by (simp add: tg_discovery_generate_config_def Let_def collection_interval_steps)

text \<open>
  C9, as the code has it. The rule fires when \<open>security_tool_count\<close> is greater than
  three. Then the CPU limit left by the rule on cores is lowered by one, not below 1,
  and the collection interval is set to 120, which the PCI-DSS rule that follows
  replaces by 30 when that bit is set. With three tools or fewer the rule changes
  neither setting. The count is the number of tools the scan found, active or not.
\<close>

theorem more_than_three_tools_lower_cpu:
  "(security_tool_count result > 3 \<longrightarrow>
      max_cpu_percent (snd (tg_discovery_generate_config gen config result now))
        = max 1 (cpu_after_cores config result - 1)
      \<and> collection_interval (snd (tg_discovery_generate_config gen config result now))
        = (if compliance_requirements (organization result) AND TG_COMPLIANCE_PCI_DSS \<noteq> 0
           then 30 else 120))
   \<and> (security_tool_count result \<le> 3 \<longrightarrow>
      max_cpu_percent (snd (tg_discovery_generate_config gen config result now))
        = cpu_after_cores config result
      \<and> collection_interval (snd (tg_discovery_generate_config gen config result now))
        = (if compliance_requirements (organization result) AND TG_COMPLIANCE_PCI_DSS \<noteq> 0
           then 30 else collection_interval config))"
  by (simp add: generated_max_cpu generated_interval)

theorem more_than_three_tools_lower_cpu_witness:
  "security_tool_count four_tool_result > 3
   \<and> max_cpu_percent (snd (tg_discovery_generate_config generator_ok default_agent_config
         four_tool_result 1700000000)) = 4
   \<and> collection_interval (snd (tg_discovery_generate_config generator_ok default_agent_config
         four_tool_result 1700000000)) = 120
   \<and> security_tool_count three_tool_result \<le> 3
   \<and> max_cpu_percent (snd (tg_discovery_generate_config generator_ok default_agent_config
         three_tool_result 1700000000)) = 5
   \<and> collection_interval (snd (tg_discovery_generate_config generator_ok default_agent_config
         three_tool_result 1700000000)) = 60"
  using
    more_than_three_tools_lower_cpu
      [of four_tool_result generator_ok default_agent_config 1700000000]
    more_than_three_tools_lower_cpu
      [of three_tool_result generator_ok default_agent_config 1700000000]
  by (simp add: four_tool_result_def three_tool_result_def cpu_after_cores_def office_host_def
      default_agent_config_def empty_organization_def TG_COMPLIANCE_PCI_DSS_def)

text \<open>
  The claim as stated fails at exactly three tools: with three active tools the CPU
  limit stays 5 and the collection interval stays 60.
\<close>

theorem three_active_tools_change_nothing:
  "security_tool_count three_tool_result = 3
   \<and> length (security_tools three_tool_result) = 3
   \<and> list_all (\<lambda>t. tool_active t \<noteq> 0) (security_tools three_tool_result)
   \<and> max_cpu_percent default_agent_config = 5
   \<and> collection_interval default_agent_config = 60
   \<and> max_cpu_percent (snd (tg_discovery_generate_config generator_ok default_agent_config
         three_tool_result 1700000000)) = 5
   \<and> collection_interval (snd (tg_discovery_generate_config generator_ok default_agent_config
         three_tool_result 1700000000)) = 60"
  by (simp add: generated_max_cpu generated_interval cpu_after_cores_def three_tool_result_def
      office_host_def default_agent_config_def empty_organization_def three_tools_def
      active_tool_def TG_COMPLIANCE_PCI_DSS_def)

subsection \<open>A discovery cycle whose scans fail\<close>

lemma run_checks_from:
  "foldl (\<lambda>scan found. run_check found scan) (count, tool_list) checks
     = (count + int (length (filter (\<lambda>found. found \<noteq> []) checks)),
        rev (concat checks) @ tool_list)"
  by (induction checks arbitrary: count tool_list) (simp_all add: run_check_def)

lemma scan_security_tools_checks_result:
  "scan_security_tools_checks checks
     = (int (length (filter (\<lambda>found. found \<noteq> []) checks)), rev (concat checks))"
  by (simp add: scan_security_tools_checks_def run_checks_from)


lemma tool_scan_count_zero_iff:
  "fst (tg_discovery_scan_security_tools platform_checks) = 0
     \<longleftrightarrow> snd (tg_discovery_scan_security_tools platform_checks) = []"
  by (auto simp: tg_discovery_scan_security_tools_def scan_security_tools_checks_result
      filter_empty_conv split: option.splits)




subsection \<open>Configuration: which source decides\<close>

lemma load_string_keeps:
  "(\<And>v c. f (store v c) = f c) \<Longrightarrow> f (load_string object key store config) = f config"
  by (simp add: load_string_def split: option.splits)

lemma load_number_keeps:
  "(\<And>v c. f (store v c) = f c) \<Longrightarrow> f (load_number object key store config) = f config"
  by (simp add: load_number_def split: option.splits)

lemma load_bool_keeps:
  "(\<And>v c. f (store v c) = f c) \<Longrightarrow> f (load_bool object key store config) = f config"
  by (simp add: load_bool_def split: option.splits)

lemma load_env_keeps:
  "(\<And>v c. f (store v c) = f c) \<Longrightarrow> f (load_env getenv var store config) = f config"
  by (simp add: load_env_def split: option.splits)

lemma load_section_keeps:
  "(\<And>v c. f (load v c) = f c) \<Longrightarrow> f (load_section json key load config) = f config"
  by (simp add: load_section_def split: option.splits)

lemmas keeps_platform_host =
  load_string_keeps [where f = platform_host]
  load_number_keeps [where f = platform_host]
  load_bool_keeps [where f = platform_host]
  load_env_keeps [where f = platform_host]
  load_section_keeps [where f = platform_host]

lemmas keeps_platform_port =
  load_string_keeps [where f = platform_port]
  load_number_keeps [where f = platform_port]
  load_bool_keeps [where f = platform_port]
  load_env_keeps [where f = platform_port]
  load_section_keeps [where f = platform_port]

lemmas keeps_platform_api_key =
  load_string_keeps [where f = platform_api_key]
  load_number_keeps [where f = platform_api_key]
  load_bool_keeps [where f = platform_api_key]
  load_env_keeps [where f = platform_api_key]
  load_section_keeps [where f = platform_api_key]

lemmas keeps_logging_level =
  load_string_keeps [where f = logging_level]
  load_number_keeps [where f = logging_level]
  load_bool_keeps [where f = logging_level]
  load_env_keeps [where f = logging_level]
  load_section_keeps [where f = logging_level]

lemmas keeps_logging_file_path =
  load_string_keeps [where f = logging_file_path]
  load_number_keeps [where f = logging_file_path]
  load_bool_keeps [where f = logging_file_path]
  load_env_keeps [where f = logging_file_path]
  load_section_keeps [where f = logging_file_path]

lemmas keeps_logging_console_output =
  load_string_keeps [where f = logging_console_output]
  load_number_keeps [where f = logging_console_output]
  load_bool_keeps [where f = logging_console_output]
  load_env_keeps [where f = logging_console_output]
  load_section_keeps [where f = logging_console_output]

lemma store_log_level_keeps:
  "platform_host (store_log_level decls s c) = platform_host c"
  "platform_port (store_log_level decls s c) = platform_port c"
  "platform_api_key (store_log_level decls s c) = platform_api_key c"
  "logging_file_path (store_log_level decls s c) = logging_file_path c"
  "logging_console_output (store_log_level decls s c) = logging_console_output c"
  by (simp_all add: store_log_level_def split: option.splits)

lemma sections_keep:
  "platform_host (tg_config_load_discovery_json d c) = platform_host c"
  "platform_host (tg_config_load_security_json decls d c) = platform_host c"
  "platform_host (tg_config_load_performance_json d c) = platform_host c"
  "platform_port (tg_config_load_discovery_json d c) = platform_port c"
  "platform_port (tg_config_load_security_json decls d c) = platform_port c"
  "platform_port (tg_config_load_performance_json d c) = platform_port c"
  "platform_api_key (tg_config_load_discovery_json d c) = platform_api_key c"
  "platform_api_key (tg_config_load_security_json decls d c) = platform_api_key c"
  "platform_api_key (tg_config_load_performance_json d c) = platform_api_key c"
  "logging_level (tg_config_load_discovery_json d c) = logging_level c"
  "logging_level (tg_config_load_security_json decls d c) = logging_level c"
  "logging_level (tg_config_load_performance_json d c) = logging_level c"
  "logging_file_path (tg_config_load_discovery_json d c) = logging_file_path c"
  "logging_file_path (tg_config_load_security_json decls d c) = logging_file_path c"
  "logging_file_path (tg_config_load_performance_json d c) = logging_file_path c"
  "logging_console_output (tg_config_load_discovery_json d c) = logging_console_output c"
  "logging_console_output (tg_config_load_security_json decls d c) = logging_console_output c"
  "logging_console_output (tg_config_load_performance_json d c) = logging_console_output c"
  "platform_host (tg_config_load_logging_json decls d c) = platform_host c"
  "platform_port (tg_config_load_logging_json decls d c) = platform_port c"
  "platform_api_key (tg_config_load_logging_json decls d c) = platform_api_key c"
  "logging_level (tg_config_load_platform_json decls d c) = logging_level c"
  "logging_file_path (tg_config_load_platform_json decls d c) = logging_file_path c"
  "logging_console_output (tg_config_load_platform_json decls d c) = logging_console_output c"
  by (simp_all add: tg_config_load_discovery_json_def tg_config_load_security_json_def
      tg_config_load_performance_json_def tg_config_load_logging_json_def
      tg_config_load_platform_json_def store_log_level_keeps
      keeps_platform_host keeps_platform_port keeps_platform_api_key keeps_logging_level keeps_logging_file_path keeps_logging_console_output)




lemma platform_section_values:
  "platform_host (tg_config_load_platform_json decls p c)
     = (case string_item p ''host'' of
          Some s \<Rightarrow> strncpy s (sizeof_host decls - 1) | None \<Rightarrow> platform_host c)"
  "platform_port (tg_config_load_platform_json decls p c)
     = (case number_item p ''port'' of Some n \<Rightarrow> n | None \<Rightarrow> platform_port c)"
  "platform_api_key (tg_config_load_platform_json decls p c)
     = (case string_item p ''api_key'' of
          Some s \<Rightarrow> strncpy s (sizeof_api_key decls - 1) | None \<Rightarrow> platform_api_key c)"
  unfolding tg_config_load_platform_json_def
  by (simp_all add: keeps_platform_host keeps_platform_port keeps_platform_api_key keeps_logging_level keeps_logging_file_path keeps_logging_console_output)
    (simp_all add: load_string_def load_number_def split: option.splits)

lemma logging_section_values:
  "logging_level (tg_config_load_logging_json decls l c)
     = (case Option.bind (string_item l ''level'') (parse_log_level decls) of
          Some lv \<Rightarrow> lv | None \<Rightarrow> logging_level c)"
  "logging_file_path (tg_config_load_logging_json decls l c)
     = (case string_item l ''file_path'' of
          Some s \<Rightarrow> strncpy s (sizeof_file_path decls - 1) | None \<Rightarrow> logging_file_path c)"
  "logging_console_output (tg_config_load_logging_json decls l c)
     = (case bool_item l ''console_output'' of
          Some b \<Rightarrow> b | None \<Rightarrow> logging_console_output c)"
  unfolding tg_config_load_logging_json_def
  by (simp_all add: keeps_platform_host keeps_platform_port keeps_platform_api_key keeps_logging_level keeps_logging_file_path keeps_logging_console_output store_log_level_keeps)
    (simp_all add: load_string_def load_bool_def store_log_level_def split: option.splits)

lemma json_values:
  "platform_host (tg_config_load_json decls json c)
     = (case file_string (Some json) ''platform'' ''host'' of
          Some s \<Rightarrow> strncpy s (sizeof_host decls - 1) | None \<Rightarrow> platform_host c)"
  "platform_port (tg_config_load_json decls json c)
     = (case file_number (Some json) ''platform'' ''port'' of
          Some n \<Rightarrow> n | None \<Rightarrow> platform_port c)"
  "platform_api_key (tg_config_load_json decls json c)
     = (case file_string (Some json) ''platform'' ''api_key'' of
          Some s \<Rightarrow> strncpy s (sizeof_api_key decls - 1) | None \<Rightarrow> platform_api_key c)"
  "logging_level (tg_config_load_json decls json c)
     = (case Option.bind (file_string (Some json) ''logging'' ''level'') (parse_log_level decls) of
          Some lv \<Rightarrow> lv | None \<Rightarrow> logging_level c)"
  "logging_file_path (tg_config_load_json decls json c)
     = (case file_string (Some json) ''logging'' ''file_path'' of
          Some s \<Rightarrow> strncpy s (sizeof_file_path decls - 1) | None \<Rightarrow> logging_file_path c)"
  "logging_console_output (tg_config_load_json decls json c)
     = (case file_bool (Some json) ''logging'' ''console_output'' of
          Some b \<Rightarrow> b | None \<Rightarrow> logging_console_output c)"
  unfolding tg_config_load_json_def
  by (simp_all add: keeps_platform_host keeps_platform_port keeps_platform_api_key keeps_logging_level keeps_logging_file_path keeps_logging_console_output sections_keep)
    (simp_all add: load_section_def file_string_def file_number_def file_bool_def
      file_section_def platform_section_values logging_section_values sections_keep keeps_platform_host keeps_platform_port keeps_platform_api_key keeps_logging_level keeps_logging_file_path keeps_logging_console_output
      split: option.splits)

lemma env_values:
  "platform_host (tg_config_load_env_vars decls getenv c)
     = (case getenv ''TG_PLATFORM_HOST'' of
          Some v \<Rightarrow> strncpy v (sizeof_host decls - 1) | None \<Rightarrow> platform_host c)"
  "platform_port (tg_config_load_env_vars decls getenv c)
     = (case getenv ''TG_PLATFORM_PORT'' of Some v \<Rightarrow> atoi v | None \<Rightarrow> platform_port c)"
  "platform_api_key (tg_config_load_env_vars decls getenv c)
     = (case getenv ''TG_API_KEY'' of
          Some v \<Rightarrow> strncpy v (sizeof_api_key decls - 1) | None \<Rightarrow> platform_api_key c)"
  "logging_level (tg_config_load_env_vars decls getenv c)
     = (case Option.bind (getenv ''TG_LOG_LEVEL'') (parse_log_level decls) of
          Some lv \<Rightarrow> lv | None \<Rightarrow> logging_level c)"
  "logging_file_path (tg_config_load_env_vars decls getenv c)
     = (case getenv ''TG_LOG_FILE'' of
          Some v \<Rightarrow> strncpy v (sizeof_file_path decls - 1) | None \<Rightarrow> logging_file_path c)"
  "logging_console_output (tg_config_load_env_vars decls getenv c)
     = (case getenv ''TG_CONSOLE_OUTPUT'' of
          Some v \<Rightarrow> env_console_output v | None \<Rightarrow> logging_console_output c)"
  unfolding tg_config_load_env_vars_def
  by (simp_all add: keeps_platform_host keeps_platform_port keeps_platform_api_key keeps_logging_level keeps_logging_file_path keeps_logging_console_output store_log_level_keeps)
    (simp_all add: load_env_def store_log_level_def env_console_output_def keeps_platform_host keeps_platform_port keeps_platform_api_key keeps_logging_level keeps_logging_file_path keeps_logging_console_output
      store_log_level_keeps split: option.splits)

lemma validate_keeps:
  assumes "tg_config_validate decls c = (0, c')"
  shows "platform_host c' = platform_host c" "platform_port c' = platform_port c"
    "platform_api_key c' = platform_api_key c" "logging_level c' = logging_level c"
    "logging_file_path c' = logging_file_path c"
    "logging_console_output c' = logging_console_output c"
  using assms
  by (auto simp: tg_config_validate_def Let_def split: if_splits)

text \<open>
  C5, as the code has it. \<open>tg_config_init\<close> copies the defaults, applies the
  environment and then the file. For each of the six keys an environment variable can
  set (platform host, port and API key; log level, log file and console output), the
  value in effect after an initialization that succeeds is the file's when the loaded
  file gives the key with the type the loader accepts; otherwise the environment's
  when the variable is set (for the log level: set to a level name); otherwise the
  built-in default. The file overrides the environment, and the environment overrides
  only the defaults. An initialization succeeds only with a log level that the
  validation lets through, so one of the two sources has set the level.
\<close>

theorem file_overrides_environment:
  assumes init: "tg_config_init decls getenv file None = (r, Some cfg)"
  shows "platform_host cfg
       = file_then_env
           (map_option (\<lambda>s. strncpy s (sizeof_host decls - 1))
              (file_string (loaded_json file) ''platform'' ''host''))
           (map_option (\<lambda>v. strncpy v (sizeof_host decls - 1)) (getenv ''TG_PLATFORM_HOST''))
           (platform_host default_config)
     \<and> platform_port cfg
       = file_then_env (file_number (loaded_json file) ''platform'' ''port'')
           (map_option atoi (getenv ''TG_PLATFORM_PORT''))
           (platform_port default_config)
     \<and> platform_api_key cfg
       = file_then_env
           (map_option (\<lambda>s. strncpy s (sizeof_api_key decls - 1))
              (file_string (loaded_json file) ''platform'' ''api_key''))
           (map_option (\<lambda>v. strncpy v (sizeof_api_key decls - 1)) (getenv ''TG_API_KEY''))
           (platform_api_key default_config)
     \<and> logging_level cfg
       = file_then_env
           (Option.bind (file_string (loaded_json file) ''logging'' ''level'')
              (parse_log_level decls))
           (Option.bind (getenv ''TG_LOG_LEVEL'') (parse_log_level decls))
           (logging_level default_config)
     \<and> logging_file_path cfg
       = file_then_env
           (map_option (\<lambda>s. strncpy s (sizeof_file_path decls - 1))
              (file_string (loaded_json file) ''logging'' ''file_path''))
           (map_option (\<lambda>v. strncpy v (sizeof_file_path decls - 1)) (getenv ''TG_LOG_FILE''))
           (logging_file_path default_config)
     \<and> logging_console_output cfg
       = file_then_env (file_bool (loaded_json file) ''logging'' ''console_output'')
           (map_option env_console_output (getenv ''TG_CONSOLE_OUTPUT''))
           (logging_console_output default_config)"
proof -
  define c1 where "c1 = tg_config_load_env_vars decls getenv default_config"
  define c2 where "c2 = (case loaded_json file of None \<Rightarrow> c1
                         | Some json \<Rightarrow> tg_config_load_json decls json c1)"
  define c2' where "c2' = (case file of
                       None \<Rightarrow> c1
                     | Some (path, None) \<Rightarrow> c1
                     | Some (path, Some json) \<Rightarrow>
                         (tg_config_load_json decls json c1)
                           \<lparr>config_file := strncpy path (sizeof_config_file decls - 1)\<rparr>)"
  have v: "tg_config_validate decls c2' = (0, cfg)"
    using init unfolding c2'_def c1_def
    by (auto simp: tg_config_init_def Let_def split: prod.splits if_splits)
  have same: "platform_host c2' = platform_host c2" "platform_port c2' = platform_port c2"
    "platform_api_key c2' = platform_api_key c2" "logging_level c2' = logging_level c2"
    "logging_file_path c2' = logging_file_path c2"
    "logging_console_output c2' = logging_console_output c2"
    by (simp_all add: c2_def c2'_def loaded_json_def split: option.splits prod.splits)
  have none: "\<And>a b c. file_string None a b = None" "\<And>a b. file_number None a b = None"
    "\<And>a b. file_bool None a b = None"
    by (simp_all add: file_string_def file_number_def file_bool_def file_section_def)
  show ?thesis
    unfolding validate_keeps [OF v] same
    by (cases "loaded_json file")
      (simp_all add: c2_def c1_def json_values env_values file_then_env_def none
        split: option.splits)
qed

text \<open>
  The example: the environment sets the host and the log level, the file sets the
  host. The initialization succeeds, with the file's host and the environment's level.
\<close>

lemma example_init:
  "tg_config_init example_decls example_env
      (Some (''/etc/threatguard-agent/agent.json'', Some example_json)) None
   = (0, Some (default_config\<lparr>platform_host := ''file.example.com'',
                 logging_level := TG_LOG_TRACE,
                 config_file := ''/etc/threatguard-agent/agent.json''\<rparr>))"
  by (simp add: tg_config_init_def tg_config_load_env_vars_def load_env_def example_env_def
      example_decls_def example_json_def tg_config_load_json_def load_section_def
      load_string_def load_number_def load_bool_def object_item_def string_item_def
      number_item_def bool_item_def cJSON_GetObjectItem_def tolower_def
      tg_config_load_platform_json_def tg_config_validate_def default_config_def
      store_log_level_def parse_log_level_def
      strncpy_def c_str_def NUL_def Let_def TG_LOG_INFO_def TG_LOG_TRACE_def)

text \<open>
  With the built-in default level, which the example's environment would leave in
  place without \<open>TG_LOG_LEVEL\<close>, the validation fails whatever \<open>TG_LOG_FATAL\<close> is, and the
  initialization with it.
\<close>

lemma default_level_is_refused:
  "tg_config_init decls (\<lambda>var. None) None None = (- 1, None)"
  by (simp add: tg_config_init_def tg_config_load_env_vars_def load_env_def
      tg_config_validate_def default_config_def c_str_def NUL_def Let_def
      TG_LOG_INFO_def TG_LOG_TRACE_def)

text \<open>
  The example does not depend on the value taken for \<open>TG_LOG_FATAL\<close>: every value from
  \<open>TG_LOG_TRACE\<close> upwards gives the same configuration. A configuration that passed
  the validation has a level from \<open>TG_LOG_TRACE\<close> to \<open>TG_LOG_FATAL\<close>.
\<close>

lemma example_init_any_fatal:
  "TG_LOG_TRACE \<le> fatal \<Longrightarrow>
   tg_config_init (example_decls\<lparr>TG_LOG_FATAL := fatal\<rparr>) example_env
      (Some (''/etc/threatguard-agent/agent.json'', Some example_json)) None
   = (0, Some (default_config\<lparr>platform_host := ''file.example.com'',
                 logging_level := TG_LOG_TRACE,
                 config_file := ''/etc/threatguard-agent/agent.json''\<rparr>))"
  by (simp add: tg_config_init_def tg_config_load_env_vars_def load_env_def example_env_def
      example_decls_def example_json_def tg_config_load_json_def load_section_def
      load_string_def load_number_def load_bool_def object_item_def string_item_def
      number_item_def bool_item_def cJSON_GetObjectItem_def tolower_def
      tg_config_load_platform_json_def tg_config_validate_def default_config_def
      store_log_level_def parse_log_level_def
      strncpy_def c_str_def NUL_def Let_def TG_LOG_INFO_def TG_LOG_TRACE_def)

lemma validated_level:
  "tg_config_validate decls c = (0, c') \<Longrightarrow>
     TG_LOG_TRACE \<le> logging_level c' \<and> logging_level c' \<le> TG_LOG_FATAL decls"
  by (auto simp: tg_config_validate_def Let_def split: if_splits)

lemma initialized_level:
  "tg_config_init decls getenv file None = (r, Some cfg) \<Longrightarrow>
     TG_LOG_TRACE \<le> logging_level cfg \<and> logging_level cfg \<le> TG_LOG_FATAL decls"
  by (auto simp: tg_config_init_def Let_def split: prod.splits if_splits dest: validated_level)

theorem file_overrides_environment_witness:
  "tg_config_init example_decls example_env
      (Some (''/etc/threatguard-agent/agent.json'', Some example_json)) None
   = (0, Some (default_config\<lparr>platform_host := ''file.example.com'',
                 logging_level := TG_LOG_TRACE,
                 config_file := ''/etc/threatguard-agent/agent.json''\<rparr>))
   \<and> platform_host (default_config\<lparr>platform_host := ''file.example.com'',
                 logging_level := TG_LOG_TRACE,
                 config_file := ''/etc/threatguard-agent/agent.json''\<rparr>)
      = file_then_env
           (map_option (\<lambda>s. strncpy s (sizeof_host example_decls - 1))
              (file_string
                 (loaded_json (Some (''/etc/threatguard-agent/agent.json'', Some example_json)))
                 ''platform'' ''host''))
           (map_option (\<lambda>v. strncpy v (sizeof_host example_decls - 1))
              (example_env ''TG_PLATFORM_HOST''))
           (platform_host default_config)
   \<and> logging_level (default_config\<lparr>platform_host := ''file.example.com'',
                 logging_level := TG_LOG_TRACE,
                 config_file := ''/etc/threatguard-agent/agent.json''\<rparr>)
      = file_then_env
           (Option.bind
              (file_string
                 (loaded_json (Some (''/etc/threatguard-agent/agent.json'', Some example_json)))
                 ''logging'' ''level'')
              (parse_log_level example_decls))
           (Option.bind (example_env ''TG_LOG_LEVEL'') (parse_log_level example_decls))
           (logging_level default_config)
   \<and> file_string
        (loaded_json (Some (''/etc/threatguard-agent/agent.json'', Some example_json)))
        ''platform'' ''host'' = Some ''file.example.com''
   \<and> file_string
        (loaded_json (Some (''/etc/threatguard-agent/agent.json'', Some example_json)))
        ''logging'' ''level'' = None
   \<and> Option.bind (example_env ''TG_LOG_LEVEL'') (parse_log_level example_decls)
      = Some TG_LOG_TRACE"
proof -
  note init = example_init
  have f: "file_string
        (loaded_json (Some (''/etc/threatguard-agent/agent.json'', Some example_json)))
        ''platform'' ''host'' = Some ''file.example.com''"
    by (simp add: loaded_json_def example_json_def file_string_def file_section_def
      object_item_def string_item_def cJSON_GetObjectItem_def tolower_def)
  have l: "file_string
        (loaded_json (Some (''/etc/threatguard-agent/agent.json'', Some example_json)))
        ''logging'' ''level'' = None"
    by (simp add: loaded_json_def example_json_def file_string_def file_section_def
      object_item_def string_item_def cJSON_GetObjectItem_def tolower_def)
  have e: "Option.bind (example_env ''TG_LOG_LEVEL'') (parse_log_level example_decls)
      = Some TG_LOG_TRACE"
    by (simp add: example_env_def parse_log_level_def c_str_def NUL_def)
  from file_overrides_environment [OF init] init f l e show ?thesis
    by blast
qed

text \<open>
  The claim as stated fails: with \<open>TG_PLATFORM_HOST\<close> set in the environment and
  \<open>platform.host\<close> set in the file, the initialization succeeds and the host in effect
  is the file's.
\<close>

theorem file_value_beats_environment_value:
  "example_env ''TG_PLATFORM_HOST'' = Some ''env.example.com''
   \<and> file_string (Some example_json) ''platform'' ''host'' = Some ''file.example.com''
   \<and> fst (tg_config_init example_decls example_env
            (Some (''/etc/threatguard-agent/agent.json'', Some example_json)) None) = 0
   \<and> map_option platform_host
        (snd (tg_config_init example_decls example_env
               (Some (''/etc/threatguard-agent/agent.json'', Some example_json)) None))
      = Some ''file.example.com''"
  by (simp add: example_init)
    (simp add: example_env_def example_json_def file_string_def file_section_def
      object_item_def string_item_def cJSON_GetObjectItem_def tolower_def)

end
